theory Spec2Isabelle
  imports Main "HOL-Library.Word" "HOL-Library.Sublist"
begin

section \<open>JavaScript values used by the report renderer\<close>

text \<open>
  A JavaScript string is a sequence of UTF-16 code units: \<open>length\<close>, \<open>slice\<close>,
  \<open>split\<close> and \<open>encodeURIComponent\<close> all count and read code units. The model
  therefore takes a string to be a list of 16-bit words. \<open>lit\<close> embeds an ASCII
  literal of the source text; the two non-ASCII characters of the templates are given
  by their code units.
\<close>

type_synonym jsstring = "16 word list"

definition lit :: "string \<Rightarrow> jsstring" where
  "lit s = map (\<lambda>c. of_nat (of_char c)) s"

definition sparkles :: jsstring where
  \<comment> \<open>U+2728, one code unit\<close>
  "sparkles = [0x2728]"

definition memo :: jsstring where
  \<comment> \<open>U+1F4DD, a surrogate pair\<close>
  "memo = [0xD83D, 0xDCDD]"

datatype error = URIError

text \<open>
  \<open>Number::toString\<close> on an integer-valued number below \<open>10^21\<close> prints its decimal
  digits, with a minus sign when negative. Every \<open>.length\<close> is such a number, and so
  is a workflow run id.
\<close>

fun digitsOf :: "nat \<Rightarrow> jsstring" where
  "digitsOf n =
     (if n < 10 then [of_nat (48 + n)]
      else digitsOf (n div 10) @ [of_nat (48 + n mod 10)])"

declare digitsOf.simps [simp del]

definition numberToString :: "int \<Rightarrow> jsstring" where
  "numberToString i = (if i < 0 then lit ''-'' @ digitsOf (nat (- i)) else digitsOf (nat i))"

text \<open>
  A template literal converts each substitution with \<open>ToString\<close>; the only non-string
  value that reaches one here is \<open>undefined\<close>, from destructuring an array that is too
  short.
\<close>

definition templateString :: "jsstring option \<Rightarrow> jsstring" where
  "templateString v = (case v of None \<Rightarrow> lit ''undefined'' | Some s \<Rightarrow> s)"

text \<open>
  \<open>String.prototype.split\<close> with the separator \<open>'/'\<close>. The result is never empty, so the
  first branch of the case below is not reached.
\<close>

definition slash :: "16 word" where
  "slash = 0x2F"

fun split_slash :: "jsstring \<Rightarrow> jsstring list" where
  "split_slash [] = [[]]"
| "split_slash (c # cs) =
     (if c = slash then [] # split_slash cs
      else (case split_slash cs of
              [] \<Rightarrow> [[c]]
            | p # ps \<Rightarrow> (c # p) # ps))"

text \<open>Array index read: \<open>undefined\<close> past the end.\<close>

definition element :: "'a list \<Rightarrow> nat \<Rightarrow> 'a option" where
  "element xs i = (if i < length xs then Some (xs ! i) else None)"

text \<open>\<open>Array.prototype.join\<close>.\<close>

fun join :: "jsstring \<Rightarrow> jsstring list \<Rightarrow> jsstring" where
  "join sep [] = []"
| "join sep [x] = x"
| "join sep (x # y # ys) = x @ sep @ join sep (y # ys)"

text \<open>
  \<open>Array.prototype.map\<close> with a callback that may throw: the first exception ends
  the call.
\<close>

fun mapE :: "('a \<Rightarrow> error + 'b) \<Rightarrow> 'a list \<Rightarrow> error + 'b list" where
  "mapE f [] = Inr []"
| "mapE f (x # xs) =
     (case f x of
        Inl e \<Rightarrow> Inl e
      | Inr y \<Rightarrow> (case mapE f xs of Inl e \<Rightarrow> Inl e | Inr ys \<Rightarrow> Inr (y # ys)))"

subsection \<open>\<open>basename\<close> of Node's \<open>path\<close> module\<close>

text \<open>
  The POSIX \<open>basename\<close> with one argument scans from the end: trailing slashes are
  skipped, and the result is what lies between them and the slash before. A path made
  of slashes only, or the empty path, has the empty base name.
\<close>

definition basename :: "jsstring \<Rightarrow> jsstring" where
  "basename path =
     rev (takeWhile (\<lambda>c. c \<noteq> slash) (dropWhile (\<lambda>c. c = slash) (rev path)))"

subsection \<open>\<open>encodeURIComponent\<close>\<close>

text \<open>
  ECMAScript's \<open>Encode\<close> with the unescaped set of \<open>encodeURIComponent\<close>: the ASCII
  letters and digits and \<open>- _ . ! ~ * ' ( )\<close> are copied; every other code point is
  written as the percent-escaped octets of its UTF-8 form; an unpaired surrogate
  throws \<open>URIError\<close>.
\<close>

definition unescaped :: "16 word \<Rightarrow> bool" where
  "unescaped c \<longleftrightarrow>
     (0x41 \<le> c \<and> c \<le> 0x5A) \<or> (0x61 \<le> c \<and> c \<le> 0x7A) \<or> (0x30 \<le> c \<and> c \<le> 0x39)
     \<or> c \<in> set (lit ''-_.!~*'()'')"

definition isLeadingSurrogate :: "16 word \<Rightarrow> bool" where
  "isLeadingSurrogate c \<longleftrightarrow> 0xD800 \<le> c \<and> c \<le> 0xDBFF"

definition isTrailingSurrogate :: "16 word \<Rightarrow> bool" where
  "isTrailingSurrogate c \<longleftrightarrow> 0xDC00 \<le> c \<and> c \<le> 0xDFFF"

definition surrogatePairToCodePoint :: "16 word \<Rightarrow> 16 word \<Rightarrow> nat" where
  "surrogatePairToCodePoint lead trail =
     (unat lead - 0xD800) * 0x400 + (unat trail - 0xDC00) + 0x10000"

definition utf8 :: "nat \<Rightarrow> nat list" where
  "utf8 cp =
     (if cp < 0x80 then [cp]
      else if cp < 0x800 then [0xC0 + cp div 0x40, 0x80 + cp mod 0x40]
      else if cp < 0x10000 then
        [0xE0 + cp div 0x1000, 0x80 + (cp div 0x40) mod 0x40, 0x80 + cp mod 0x40]
      else
        [0xF0 + cp div 0x40000, 0x80 + (cp div 0x1000) mod 0x40,
         0x80 + (cp div 0x40) mod 0x40, 0x80 + cp mod 0x40])"

definition hexDigit :: "nat \<Rightarrow> 16 word" where
  "hexDigit d = (if d < 10 then of_nat (48 + d) else of_nat (55 + d))"

definition percentOctet :: "nat \<Rightarrow> jsstring" where
  "percentOctet b = lit ''%'' @ [hexDigit (b div 16), hexDigit (b mod 16)]"

definition percentOctets :: "nat list \<Rightarrow> jsstring" where
  "percentOctets bs = concat (map percentOctet bs)"

fun encodeURIComponent :: "jsstring \<Rightarrow> error + jsstring" where
  "encodeURIComponent [] = Inr []"
| "encodeURIComponent (c # cs) =
     (if unescaped c then
        (case encodeURIComponent cs of Inl e \<Rightarrow> Inl e | Inr r \<Rightarrow> Inr (c # r))
      else if isLeadingSurrogate c then
        (case cs of
           [] \<Rightarrow> Inl URIError
         | d # ds \<Rightarrow>
             if isTrailingSurrogate d then
               (case encodeURIComponent ds of
                  Inl e \<Rightarrow> Inl e
                | Inr r \<Rightarrow> Inr (percentOctets (utf8 (surrogatePairToCodePoint c d)) @ r))
             else Inl URIError)
      else if isTrailingSurrogate c then Inl URIError
      else
        (case encodeURIComponent cs of
           Inl e \<Rightarrow> Inl e
         | Inr r \<Rightarrow> Inr (percentOctets (utf8 (unat c)) @ r)))"

text \<open>
  ECMAScript's \<open>IsStringWellFormedUnicode\<close> (the test of \<open>String.prototype.isWellFormed\<close>):
  every surrogate code unit belongs to a pair, a leading one followed by a trailing
  one.
\<close>

fun wellFormed :: "jsstring \<Rightarrow> bool" where
  "wellFormed [] = True"
| "wellFormed (c # cs) =
     (if isLeadingSurrogate c then
        (case cs of [] \<Rightarrow> False | d # ds \<Rightarrow> isTrailingSurrogate d \<and> wellFormed ds)
      else if isTrailingSurrogate c then False
      else wellFormed cs)"

section \<open>The inputs\<close>

text \<open>
  Modelled from the spec: the types \<open>CompareOutput\<close>, \<open>Event\<close> and \<open>Run\<close> are imported
  from \<open>./compare\<close>, \<open>./event\<close> and \<open>./run\<close>, which are not among the sources. The spec
  gives a comparison result four sequences of item identifiers (file paths), the
  context a repository full name, and the target run a commit SHA; the renderer reads
  exactly these: the four item lists, \<open>event.repository.full_name\<close> and
  \<open>targetRun.head_sha\<close>. A run id is an integer.
\<close>

record CompareOutput =
  passedItems :: "jsstring list"
  failedItems :: "jsstring list"
  newItems :: "jsstring list"
  deletedItems :: "jsstring list"

record Repository =
  full_name :: jsstring

record Event =
  repository :: Repository

record Run =
  head_sha :: jsstring

record CreateCommentWithoutTargetInput =
  event :: Event
  runId :: int
  result :: CompareOutput
  artifactName :: jsstring
  customReportPage :: "jsstring option"

record CreateCommentWithTargetInput =
  event :: Event
  runId :: int
  sha :: jsstring
  regBranch :: jsstring
  artifactName :: jsstring
  targetRun :: Run
  result :: CompareOutput
  date :: jsstring
  customReportPage :: "jsstring option"

text \<open>
  \<open>customReportPage ? a : b\<close> tests truthiness: \<open>null\<close> and the empty string both
  take the second branch.
\<close>

definition truthy :: "jsstring option \<Rightarrow> bool" where
  "truthy v = (case v of None \<Rightarrow> False | Some s \<Rightarrow> s \<noteq> [])"

section \<open>The renderer\<close>

definition isSuccess :: "CompareOutput \<Rightarrow> bool" where
  "isSuccess r \<longleftrightarrow>
     length (failedItems r) = 0 \<and> length (newItems r) = 0 \<and> length (deletedItems r) = 0"

definition badge :: "CompareOutput \<Rightarrow> jsstring" where
  "badge r =
     (if length (failedItems r) \<noteq> 0 then
        lit ''![change detected](https://img.shields.io/badge/%E2%9C%94%20reg-change%20detected-orange)''
      else if length (newItems r) \<noteq> 0 then
        lit ''![new items](https://img.shields.io/badge/%E2%9C%94%20reg-new%20items-green)''
      else
        lit ''![success](https://img.shields.io/badge/%E2%9C%94%20reg-passed-green)'')"

text \<open>
  \<open>owner\<close> and \<open>repoName\<close> come from destructuring the split full name, so either
  may be \<open>undefined\<close> when the template converts it.
\<close>

definition createBaseUrl ::
  "jsstring option \<Rightarrow> jsstring option \<Rightarrow> jsstring \<Rightarrow> int \<Rightarrow> jsstring \<Rightarrow> jsstring \<Rightarrow> jsstring"
where
  "createBaseUrl owner repoName branch rid artifact dt =
     lit ''https://github.com/'' @ templateString owner @ lit ''/'' @ templateString repoName
     @ lit ''/blob/'' @ branch @ lit ''/'' @ dt @ lit ''_'' @ numberToString rid
     @ lit ''_'' @ artifact @ lit ''/''"

text \<open>
  The three section renderers. Each maps a callback over its item list; the callbacks
  are \<open>differencesItem\<close>, \<open>newItemsItem\<close> and \<open>deletedItemsItem\<close>. The renderers of the
  new and of the deleted items carry the suffix \<open>Section\<close>, as their names in the source
  are those of the record fields.
\<close>

definition differencesItem :: "jsstring \<Rightarrow> jsstring \<Rightarrow> error + jsstring" where
  "differencesItem baseUrl item =
     (let base = basename item in
      case encodeURIComponent base of
        Inl e \<Rightarrow> Inl e
      | Inr filename \<Rightarrow>
          (let actual = baseUrl @ lit ''actual/'' @ filename @ lit ''?raw=true'';
               expected = baseUrl @ lit ''expected/'' @ filename @ lit ''?raw=true'';
               diff = baseUrl @ lit ''diff/'' @ filename @ lit ''?raw=true''
           in Inr (lit ''### `'' @ base @ lit ''`\<newline>   \<newline>| actual|![Actual]('' @ actual
                   @ lit '') |\<newline>|--|--|\<newline>|expected|![Expected]('' @ expected
                   @ lit '')|\<newline>|difference|![Difference]('' @ diff @ lit '')|'')))"

definition differences :: "CompareOutput \<Rightarrow> jsstring \<Rightarrow> error + jsstring" where
  "differences r baseUrl =
     (if length (failedItems r) = 0 then Inr []
      else
        (case mapE (differencesItem baseUrl) (failedItems r) of
           Inl e \<Rightarrow> Inl e
         | Inr blocks \<Rightarrow>
             Inr (lit ''   \<newline>     \<newline>### Differences\<newline>  \<newline>''
                  @ join (lit ''\<newline>'') blocks @ lit ''\<newline>  '')))"

definition newItemsItem :: "jsstring \<Rightarrow> jsstring \<Rightarrow> error + jsstring" where
  "newItemsItem baseUrl item =
     (let base = basename item in
      case encodeURIComponent base of
        Inl e \<Rightarrow> Inl e
      | Inr filename \<Rightarrow>
          (let img = baseUrl @ lit ''actual/'' @ filename @ lit ''?raw=true''
           in Inr (lit ''### `'' @ base @ lit ''`\<newline>       \<newline>|  |\<newline>|--|\<newline>|![NewItem]('' @ img
                   @ lit '')|\<newline>       '')))"

definition newItemsSection :: "CompareOutput \<Rightarrow> jsstring \<Rightarrow> error + jsstring" where
  "newItemsSection r baseUrl =
     (if length (newItems r) = 0 then Inr []
      else
        (case mapE (newItemsItem baseUrl) (newItems r) of
           Inl e \<Rightarrow> Inl e
         | Inr blocks \<Rightarrow>
             Inr (lit ''   \<newline>     \<newline>### New Items\<newline>  \<newline>''
                  @ join (lit ''\<newline>'') blocks @ lit ''\<newline>  '')))"

definition deletedItemsItem :: "jsstring \<Rightarrow> jsstring \<Rightarrow> error + jsstring" where
  "deletedItemsItem baseUrl item =
     (let base = basename item in
      case encodeURIComponent base of
        Inl e \<Rightarrow> Inl e
      | Inr filename \<Rightarrow>
          (let img = baseUrl @ lit ''expected/'' @ filename @ lit ''?raw=true''
           in Inr (lit ''### `'' @ base @ lit ''`\<newline>       \<newline>|  |\<newline>|--|\<newline>|![DeleteItem]('' @ img
                   @ lit '')|\<newline>       '')))"

definition deletedItemsSection :: "CompareOutput \<Rightarrow> jsstring \<Rightarrow> error + jsstring" where
  "deletedItemsSection r baseUrl =
     (if length (deletedItems r) = 0 then Inr []
      else
        (case mapE (deletedItemsItem baseUrl) (deletedItems r) of
           Inl e \<Rightarrow> Inl e
         | Inr blocks \<Rightarrow>
             Inr (lit ''   \<newline>   \<newline>### Deleted Items\<newline>  \<newline>''
                  @ join (lit ''\<newline>'') blocks @ lit ''\<newline>  '')))"

text \<open>The local constants \<open>report\<close> and \<open>successOrFailMessage\<close> of \<open>createCommentWithTarget\<close>.\<close>

definition reportWithTarget :: "jsstring option \<Rightarrow> jsstring" where
  "reportWithTarget page =
     (if truthy page then
        lit ''   \<newline>Check out the report [here]('' @ templateString page @ lit '').''
      else [])"

definition successOrFailMessage :: "CompareOutput \<Rightarrow> jsstring \<Rightarrow> jsstring \<Rightarrow> jsstring" where
  "successOrFailMessage r artifact report =
     (if isSuccess r then
        badge r @ lit ''\<newline>\<newline>## ArtifactName: `'' @ artifact @ lit ''`\<newline>  \<newline>''
        @ sparkles @ sparkles @ lit '' That's perfect, there is no visual difference! ''
        @ sparkles @ sparkles @ lit ''\<newline>Check out the report [here]('' @ report
        @ lit '').\<newline>    ''
      else
        badge r @ lit ''\<newline>\<newline>## ArtifactName: `'' @ artifact
        @ lit ''`\<newline>\<newline>Check out the report [here]('' @ report @ lit '').\<newline>    '')"

text \<open>
  The body template of \<open>createCommentWithTarget\<close> is given in three parts: its first two
  lines (the commit comparison), the summary table, and the whole.
\<close>

definition commitSentence ::
  "jsstring option \<Rightarrow> jsstring option \<Rightarrow> jsstring \<Rightarrow> jsstring \<Rightarrow> jsstring \<Rightarrow> jsstring \<Rightarrow> jsstring"
where
  "commitSentence owner repoName currentHash targetHash currentHashShort targetHashShort =
     lit ''This report was generated by comparing ['' @ currentHashShort
     @ lit ''](https://github.com/'' @ templateString owner @ lit ''/''
     @ templateString repoName @ lit ''/commit/'' @ currentHash @ lit '') with [''
     @ targetHashShort @ lit ''](https://github.com/'' @ templateString owner
     @ lit ''/'' @ templateString repoName @ lit ''/commit/'' @ targetHash
     @ lit '').\<newline>If you would like to check difference, please check [here](https://github.com/''
     @ templateString owner @ lit ''/'' @ templateString repoName @ lit ''/compare/''
     @ targetHashShort @ lit ''..'' @ currentHashShort @ lit '').''"

definition summaryTable :: "CompareOutput \<Rightarrow> jsstring" where
  "summaryTable r =
     lit ''| item    | count                         |\<newline>''
     @ lit ''|:--------|:-----------------------------:|\<newline>''
     @ lit ''| pass    | '' @ numberToString (int (length (passedItems r))) @ lit ''  |\<newline>''
     @ lit ''| change  | '' @ numberToString (int (length (failedItems r))) @ lit ''  |\<newline>''
     @ lit ''| new     | '' @ numberToString (int (length (newItems r))) @ lit ''     |\<newline>''
     @ lit ''| delete  | '' @ numberToString (int (length (deletedItems r))) @ lit '' |\<newline>''"

definition createCommentWithTarget :: "CreateCommentWithTargetInput \<Rightarrow> error + jsstring" where
  "createCommentWithTarget inp =
     (let parts = split_slash (full_name (repository (event inp)));
          owner = element parts 0;
          repoName = element parts 1;
          currentHash = sha inp;
          targetHash = head_sha (targetRun inp);
          currentHashShort = take 7 currentHash;
          targetHashShort = take 7 targetHash;
          r = result inp;
          baseUrl = createBaseUrl owner repoName (regBranch inp) (runId inp)
                      (artifactName inp) (date inp);
          report = reportWithTarget (customReportPage inp);
          message = successOrFailMessage r (artifactName inp) report
      in
      case differences r baseUrl of
        Inl e \<Rightarrow> Inl e
      | Inr d \<Rightarrow>
      (case newItemsSection r baseUrl of
        Inl e \<Rightarrow> Inl e
      | Inr n \<Rightarrow>
      (case deletedItemsSection r baseUrl of
        Inl e \<Rightarrow> Inl e
      | Inr x \<Rightarrow>
          Inr (commitSentence owner repoName currentHash targetHash currentHashShort
                 targetHashShort
               @ lit ''\<newline>  \<newline>'' @ message @ lit ''\<newline>  \<newline>''
               @ summaryTable r
               @ lit ''\<newline><details>\<newline><summary>'' @ memo @ lit '' Report</summary>\<newline>''
               @ d @ lit ''\<newline>'' @ n @ lit ''\<newline>'' @ x
               @ lit ''\<newline></details>\<newline>''))))"

definition reportWithoutTarget :: "jsstring option \<Rightarrow> jsstring" where
  "reportWithoutTarget page =
     (if truthy page then
        lit ''   \<newline>  Check out the report [here]('' @ templateString page @ lit '').''
      else [])"

definition createCommentWithoutTarget :: "CreateCommentWithoutTargetInput \<Rightarrow> jsstring" where
  "createCommentWithoutTarget inp =
     (let r = CreateCommentWithoutTargetInput.result inp;
          report = reportWithoutTarget (CreateCommentWithoutTargetInput.customReportPage inp)
      in
      lit ''## ArtifactName: `'' @ CreateCommentWithoutTargetInput.artifactName inp
      @ lit ''`\<newline>  \<newline>Failed to find a target artifact.\<newline>''
      @ lit ''All items will be treated as new items and will be used as expected data for the next time.\<newline>\<newline>''
      @ lit ''![target not found](https://img.shields.io/badge/%E2%9C%94%20reg-new%20items-blue)\<newline>''
      @ report
      @ lit ''\<newline>\<newline>| item    | count                         |\<newline>''
      @ lit ''|:--------|:-----------------------------:|\<newline>''
      @ lit ''| new     | '' @ numberToString (int (length (newItems r)))
      @ lit ''     |\<newline>  '')"

section \<open>Reading the output\<close>

text \<open>
  Two readers for stating what a rendered string shows: the number that a run of decimal
  digits denotes, and the cells of a Markdown table row (the text between the pipes,
  without the padding spaces).
\<close>

definition decimalValue :: "jsstring \<Rightarrow> nat" where
  "decimalValue s = foldl (\<lambda>a c. 10 * a + (unat c - 48)) 0 s"

definition hash :: "16 word" where
  "hash = 0x23"

definition space :: "16 word" where
  "space = 0x20"

definition pipe :: "16 word" where
  "pipe = 0x7C"

definition trim :: "jsstring \<Rightarrow> jsstring" where
  "trim s = rev (dropWhile (\<lambda>c. c = space) (rev (dropWhile (\<lambda>c. c = space) s)))"

fun splitPipes :: "jsstring \<Rightarrow> jsstring list" where
  "splitPipes [] = [[]]"
| "splitPipes (c # cs) =
     (if c = pipe then [] # splitPipes cs
      else (case splitPipes cs of
              [] \<Rightarrow> [[c]]
            | p # ps \<Rightarrow> (c # p) # ps))"

definition tableCells :: "jsstring \<Rightarrow> jsstring list" where
  "tableCells row = map trim (butlast (tl (splitPipes row)))"

section \<open>Example inputs\<close>

definition exampleResult :: CompareOutput where
  "exampleResult =
     \<lparr> passedItems = [lit ''a.png''], failedItems = [], newItems = [], deletedItems = [] \<rparr>"

definition exampleInput :: CreateCommentWithTargetInput where
  "exampleInput =
     \<lparr> event = \<lparr> repository = \<lparr> full_name = lit ''amyu/reg-actions'' \<rparr> \<rparr>,
       runId = 4711,
       sha = lit ''0123456789abcdef0123456789abcdef01234567'',
       regBranch = lit ''reg_actions'',
       artifactName = lit ''home'',
       targetRun = \<lparr> head_sha = lit ''fedcba9876543210fedcba9876543210fedcba98'' \<rparr>,
       result = exampleResult,
       date = lit ''2024-01-01'',
       customReportPage = None \<rparr>"

definition exampleWithoutTarget :: CreateCommentWithoutTargetInput where
  "exampleWithoutTarget =
     \<lparr> CreateCommentWithoutTargetInput.event =
         \<lparr> repository = \<lparr> full_name = lit ''amyu/reg-actions'' \<rparr> \<rparr>,
       runId = 4711,
       result = \<lparr> passedItems = [], failedItems = [],
                  newItems = [lit ''a.png'', lit ''b.png''], deletedItems = [] \<rparr>,
       artifactName = lit ''home'',
       customReportPage = Some (lit ''https://example.com/report'') \<rparr>"

definition otherLists :: CompareOutput where
  "otherLists =
     \<lparr> passedItems = [lit ''p.png''], failedItems = [lit ''f.png'', lit ''g.png''],
       newItems = [lit ''x.png'', lit ''y.png''], deletedItems = [lit ''d.png''] \<rparr>"

definition otherEvent :: Event where
  "otherEvent = \<lparr> repository = \<lparr> full_name = lit ''someone/else'' \<rparr> \<rparr>"

text \<open>The string that the renderer returns for \<open>exampleInput\<close>.\<close>

definition exampleOutput :: jsstring where
  "exampleOutput =
     lit ''This report was generated by comparing [0123456](https://github.com/amyu/reg-actions/commit/0123456789abcdef0123456789abcdef01234567) with [fedcba9](https://github.com/amyu/reg-actions/commit/fedcba9876543210fedcba9876543210fedcba98).\<newline>''
     @ lit ''If you would like to check difference, please check [here](https://github.com/amyu/reg-actions/compare/fedcba9..0123456).\<newline>''
     @ lit ''  \<newline>''
     @ lit ''![success](https://img.shields.io/badge/%E2%9C%94%20reg-passed-green)\<newline>''
     @ lit ''\<newline>''
     @ lit ''## ArtifactName: `home`\<newline>''
     @ lit ''  \<newline>''
     @ sparkles @ sparkles @ lit '' That's perfect, there is no visual difference! ''
     @ sparkles @ sparkles @ lit ''\<newline>''
     @ lit ''Check out the report [here]().\<newline>''
     @ lit ''    \<newline>''
     @ lit ''  \<newline>''
     @ lit ''| item    | count                         |\<newline>''
     @ lit ''|:--------|:-----------------------------:|\<newline>''
     @ lit ''| pass    | 1  |\<newline>''
     @ lit ''| change  | 0  |\<newline>''
     @ lit ''| new     | 0     |\<newline>''
     @ lit ''| delete  | 0 |\<newline>''
     @ lit ''\<newline>''
     @ lit ''<details>\<newline>''
     @ lit ''<summary>'' @ memo @ lit '' Report</summary>\<newline>''
     @ lit ''\<newline>''
     @ lit ''\<newline>''
     @ lit ''\<newline>''
     @ lit ''</details>\<newline>''"

definition fullInput :: CreateCommentWithTargetInput where
  "fullInput =
     exampleInput
       \<lparr> result :=
           \<lparr> passedItems = [lit ''a.png'', lit ''b.png''],
             failedItems = [lit ''dir/sub/My File.png''],
             newItems = [lit ''n.png''],
             deletedItems = [lit ''d.png''] \<rparr>,
         customReportPage := Some (lit ''https://example.com/report'') \<rparr>"

text \<open>An item name that ends a surrogate pair early: the leading half of U+1F4DD alone.\<close>

definition unpairedItem :: jsstring where
  "unpairedItem = lit ''shot-'' @ [0xD83D] @ lit ''.png''"

definition unpairedInput :: CreateCommentWithTargetInput where
  "unpairedInput =
     exampleInput
       \<lparr> result :=
           \<lparr> passedItems = [], failedItems = [unpairedItem], newItems = [],
             deletedItems = [] \<rparr> \<rparr>"

definition emptyPageInput :: CreateCommentWithTargetInput where
  "emptyPageInput = exampleInput \<lparr> customReportPage := Some [] \<rparr>"

text \<open>
  Further inputs with an ill-formed item name: a new item with a trailing surrogate
  that follows no leading one, a deleted item that ends in a leading surrogate, and a
  failed item as in \<open>unpairedInput\<close> together with a report page.
\<close>

definition trailingItem :: jsstring where
  "trailingItem = lit ''new/'' @ [0xDCDD] @ lit ''.png''"

definition trailingInput :: CreateCommentWithTargetInput where
  "trailingInput =
     exampleInput
       \<lparr> result :=
           \<lparr> passedItems = [lit ''a.png''], failedItems = [], newItems = [trailingItem],
             deletedItems = [] \<rparr> \<rparr>"

definition leadingItem :: jsstring where
  "leadingItem = lit ''old/shot'' @ [0xD83D]"

definition leadingInput :: CreateCommentWithTargetInput where
  "leadingInput =
     exampleInput
       \<lparr> result :=
           \<lparr> passedItems = [], failedItems = [], newItems = [],
             deletedItems = [lit ''d.png'', leadingItem] \<rparr> \<rparr>"

definition unpairedPageInput :: CreateCommentWithTargetInput where
  "unpairedPageInput =
     unpairedInput \<lparr> customReportPage := Some (lit ''https://example.com/report'') \<rparr>"

section \<open>Basic facts\<close>

lemma lit_append: "lit (a @ b) = lit a @ lit b"
  by (simp add: lit_def)

lemma sections_of_success:
  assumes "isSuccess r"
  shows "differences r u = Inr []" and "newItemsSection r u = Inr []"
    and "deletedItemsSection r u = Inr []"
  using assms
  by (simp_all add: isSuccess_def differences_def newItemsSection_def deletedItemsSection_def)

lemma createCommentWithTarget_success:
  assumes "isSuccess (result inp)"
  shows "\<exists>pre post.
     createCommentWithTarget inp =
       Inr (pre @ successOrFailMessage (result inp) (artifactName inp)
                    (reportWithTarget (customReportPage inp)) @ post)"
  unfolding createCommentWithTarget_def Let_def sections_of_success [OF assms] sum.case
  by (metis append_assoc)

section \<open>Classification and badge\<close>

text \<open>
  C2. The badge follows a fixed precedence: a non-empty \<open>failedItems\<close> gives the orange
  "change detected" badge whatever the other lists hold; otherwise a non-empty
  \<open>newItems\<close> gives the green "new items" badge; otherwise the badge is the green
  "passed" badge.
\<close>

theorem badge_precedence:
  "(failedItems r \<noteq> [] \<longrightarrow>
      badge r = lit ''![change detected](https://img.shields.io/badge/%E2%9C%94%20reg-change%20detected-orange)'')
   \<and> (failedItems r = [] \<and> newItems r \<noteq> [] \<longrightarrow>
      badge r = lit ''![new items](https://img.shields.io/badge/%E2%9C%94%20reg-new%20items-green)'')
   \<and> (failedItems r = [] \<and> newItems r = [] \<longrightarrow>
      badge r = lit ''![success](https://img.shields.io/badge/%E2%9C%94%20reg-passed-green)'')"
  by (simp add: badge_def)

theorem badge_precedence_witness:
  "badge \<lparr> passedItems = [], failedItems = [lit ''a.png''],
           newItems = [lit ''b.png'', lit ''c.png''], deletedItems = [lit ''d.png''] \<rparr>
     = lit ''![change detected](https://img.shields.io/badge/%E2%9C%94%20reg-change%20detected-orange)''
   \<and> badge \<lparr> passedItems = [], failedItems = [], newItems = [lit ''b.png''],
               deletedItems = [lit ''d.png'', lit ''e.png''] \<rparr>
     = lit ''![new items](https://img.shields.io/badge/%E2%9C%94%20reg-new%20items-green)''
   \<and> badge \<lparr> passedItems = [lit ''p.png''], failedItems = [], newItems = [],
               deletedItems = [lit ''d.png''] \<rparr>
     = lit ''![success](https://img.shields.io/badge/%E2%9C%94%20reg-passed-green)''"
  using
    badge_precedence [of "\<lparr> passedItems = [], failedItems = [lit ''a.png''],
           newItems = [lit ''b.png'', lit ''c.png''], deletedItems = [lit ''d.png''] \<rparr>"]
    badge_precedence [of "\<lparr> passedItems = [], failedItems = [], newItems = [lit ''b.png''],
               deletedItems = [lit ''d.png'', lit ''e.png''] \<rparr>"]
    badge_precedence [of "\<lparr> passedItems = [lit ''p.png''], failedItems = [], newItems = [],
               deletedItems = [lit ''d.png''] \<rparr>"]
  by simp

section \<open>Numbers in the output\<close>

lemma unat_digit: "d < 10 \<Longrightarrow> unat (48 + of_nat d :: 16 word) = 48 + d"
proof -
  assume "d < 10"
  then have "(48 + d) mod 2 ^ LENGTH(16) = 48 + d"
    by simp
  then have "unat (of_nat (48 + d) :: 16 word) = 48 + d"
    by (simp only: unat_of_nat)
  then show ?thesis
    by simp
qed

lemma digitsOf_range: "c \<in> set (digitsOf n) \<Longrightarrow> 48 \<le> unat c \<and> unat c \<le> 57"
proof (induction n rule: digitsOf.induct)
  case (1 n)
  show ?case
  proof (cases "n < 10")
    case True
    with "1.prems" have "c = 48 + of_nat n"
      by (simp add: digitsOf.simps [of n])
    with True show ?thesis
      using unat_digit [of n] by simp
  next
    case False
    with "1.prems" have "c \<in> set (digitsOf (n div 10)) \<or> c = 48 + of_nat (n mod 10)"
      by (auto simp add: digitsOf.simps [of n])
    then show ?thesis
    proof
      assume "c \<in> set (digitsOf (n div 10))"
      with "1.IH" False show ?thesis by simp
    next
      assume "c = 48 + of_nat (n mod 10)"
      then show ?thesis
        using unat_digit [of "n mod 10"] by simp
    qed
  qed
qed

lemma decimalValue_digitsOf: "decimalValue (digitsOf n) = n"
proof (induction n rule: digitsOf.induct)
  case (1 n)
  show ?case
  proof (cases "n < 10")
    case True
    then show ?thesis
      using unat_digit [of n] by (simp add: digitsOf.simps [of n] decimalValue_def)
  next
    case False
    with "1.IH" have "decimalValue (digitsOf (n div 10)) = n div 10"
      by simp
    with False show ?thesis
      using unat_digit [of "n mod 10"]
      by (simp add: digitsOf.simps [of n] decimalValue_def)
  qed
qed

lemma numberToString_length: "numberToString (int n) = digitsOf n"
  by (simp add: numberToString_def)

lemma hash_notin_digitsOf: "hash \<notin> set (digitsOf n)"
  using digitsOf_range [of hash n] by (auto simp: hash_def)

lemma filter_hash_digitsOf: "filter (\<lambda>c. c = hash) (digitsOf n) = []"
  using hash_notin_digitsOf [of n] by (auto simp add: filter_empty_conv)

lemma sublist_filter_length:
  assumes "sublist xs ys"
  shows "length (filter P xs) \<le> length (filter P ys)"
  using assms by (auto simp: sublist_def)

lemma createCommentWithoutTarget_hashes:
  assumes "hash \<notin> set (CreateCommentWithoutTargetInput.artifactName inp)"
    and "hash \<notin> set (templateString (CreateCommentWithoutTargetInput.customReportPage inp))"
  shows "length (filter (\<lambda>c. c = hash) (createCommentWithoutTarget inp)) = 2"
proof -
  have a: "filter (\<lambda>c. c = hash) (CreateCommentWithoutTargetInput.artifactName inp) = []"
    using assms(1) by (auto simp add: filter_empty_conv)
  have p: "filter (\<lambda>c. c = hash) (templateString (CreateCommentWithoutTargetInput.customReportPage inp)) = []"
    using assms(2) by (auto simp add: filter_empty_conv)
  have r: "length (filter (\<lambda>c. c = hash) (reportWithoutTarget (CreateCommentWithoutTargetInput.customReportPage inp))) = 0"
    by (simp add: reportWithoutTarget_def p) (simp add: lit_def hash_def)
  show ?thesis
    unfolding createCommentWithoutTarget_def Let_def
    using r by (simp add: a numberToString_length filter_hash_digitsOf) (simp add: lit_def hash_def)
qed

section \<open>The comment without a target\<close>

text \<open>
  C5. Two inputs of \<open>createCommentWithoutTarget\<close> with the same artifact name, the same
  custom report page and equally many new items give the same string, whatever their
  failed, deleted and passed items are. In particular no Differences or Deleted Items
  section is rendered: when the artifact name and the report page hold no \<open>#\<close>, the
  output has only the two \<open>#\<close> of its first line, so neither header occurs in it.
\<close>

theorem createCommentWithoutTarget_only_newItems_count:
  assumes "CreateCommentWithoutTargetInput.artifactName a = CreateCommentWithoutTargetInput.artifactName b"
    and "CreateCommentWithoutTargetInput.customReportPage a = CreateCommentWithoutTargetInput.customReportPage b"
    and "length (newItems (CreateCommentWithoutTargetInput.result a))
         = length (newItems (CreateCommentWithoutTargetInput.result b))"
  shows "createCommentWithoutTarget a = createCommentWithoutTarget b
    \<and> (hash \<notin> set (CreateCommentWithoutTargetInput.artifactName a)
        \<and> hash \<notin> set (templateString (CreateCommentWithoutTargetInput.customReportPage a))
        \<longrightarrow> \<not> sublist (lit ''### Differences'') (createCommentWithoutTarget a)
            \<and> \<not> sublist (lit ''### Deleted Items'') (createCommentWithoutTarget a))"
proof (intro conjI impI)
  show "createCommentWithoutTarget a = createCommentWithoutTarget b"
    using assms by (simp add: createCommentWithoutTarget_def)
next
  assume h: "hash \<notin> set (CreateCommentWithoutTargetInput.artifactName a)
        \<and> hash \<notin> set (templateString (CreateCommentWithoutTargetInput.customReportPage a))"
  then have two: "length (filter (\<lambda>c. c = hash) (createCommentWithoutTarget a)) = 2"
    by (simp add: createCommentWithoutTarget_hashes)
  have d: "length (filter (\<lambda>c. c = hash) (lit ''### Differences'')) = 3"
    by (simp add: lit_def hash_def)
  have x: "length (filter (\<lambda>c. c = hash) (lit ''### Deleted Items'')) = 3"
    by (simp add: lit_def hash_def)
  show "\<not> sublist (lit ''### Differences'') (createCommentWithoutTarget a)"
    using sublist_filter_length [of "lit ''### Differences''" "createCommentWithoutTarget a" "\<lambda>c. c = hash"]
      two d by auto
  show "\<not> sublist (lit ''### Deleted Items'') (createCommentWithoutTarget a)"
    using sublist_filter_length [of "lit ''### Deleted Items''" "createCommentWithoutTarget a" "\<lambda>c. c = hash"]
      two x by auto
qed

theorem createCommentWithoutTarget_only_newItems_count_witness:
  "CreateCommentWithoutTargetInput.artifactName exampleWithoutTarget
     = CreateCommentWithoutTargetInput.artifactName
         (exampleWithoutTarget\<lparr>CreateCommentWithoutTargetInput.result := otherLists\<rparr>)
   \<and> length (newItems (CreateCommentWithoutTargetInput.result exampleWithoutTarget))
     = length (newItems otherLists)
   \<and> failedItems otherLists \<noteq> [] \<and> deletedItems otherLists \<noteq> []
   \<and> createCommentWithoutTarget exampleWithoutTarget
     = createCommentWithoutTarget
         (exampleWithoutTarget\<lparr>CreateCommentWithoutTargetInput.result := otherLists\<rparr>)
   \<and> \<not> sublist (lit ''### Differences'')
         (createCommentWithoutTarget
            (exampleWithoutTarget\<lparr>CreateCommentWithoutTargetInput.result := otherLists\<rparr>))
   \<and> \<not> sublist (lit ''### Deleted Items'')
         (createCommentWithoutTarget
            (exampleWithoutTarget\<lparr>CreateCommentWithoutTargetInput.result := otherLists\<rparr>))"
proof -
  let ?b = "exampleWithoutTarget\<lparr>CreateCommentWithoutTargetInput.result := otherLists\<rparr>"
  have n: "CreateCommentWithoutTargetInput.artifactName ?b
             = CreateCommentWithoutTargetInput.artifactName exampleWithoutTarget"
    by simp
  have p: "CreateCommentWithoutTargetInput.customReportPage ?b
             = CreateCommentWithoutTargetInput.customReportPage exampleWithoutTarget"
    by simp
  have l: "length (newItems (CreateCommentWithoutTargetInput.result ?b))
             = length (newItems (CreateCommentWithoutTargetInput.result exampleWithoutTarget))"
    by (simp add: exampleWithoutTarget_def otherLists_def)
  have h1: "hash \<notin> set (CreateCommentWithoutTargetInput.artifactName ?b)"
    by (simp add: exampleWithoutTarget_def lit_def hash_def)
  have h2: "hash \<notin> set (templateString (CreateCommentWithoutTargetInput.customReportPage ?b))"
    by (simp add: exampleWithoutTarget_def templateString_def lit_def hash_def)
  have e: "failedItems otherLists \<noteq> [] \<and> deletedItems otherLists \<noteq> []"
    by (simp add: otherLists_def)
  from createCommentWithoutTarget_only_newItems_count [OF n p l] h1 h2 l e
  show ?thesis
    by auto
qed

text \<open>
  C10. Two inputs of \<open>createCommentWithoutTarget\<close> with the same result, artifact name
  and custom report page give the same string, whatever their \<open>event\<close> and \<open>runId\<close>
  fields hold.
\<close>

theorem createCommentWithoutTarget_ignores_event_runId:
  assumes "CreateCommentWithoutTargetInput.result a = CreateCommentWithoutTargetInput.result b"
    and "CreateCommentWithoutTargetInput.artifactName a = CreateCommentWithoutTargetInput.artifactName b"
    and "CreateCommentWithoutTargetInput.customReportPage a = CreateCommentWithoutTargetInput.customReportPage b"
  shows "createCommentWithoutTarget a = createCommentWithoutTarget b"
  using assms by (simp add: createCommentWithoutTarget_def)

theorem createCommentWithoutTarget_ignores_event_runId_witness:
  "CreateCommentWithoutTargetInput.event exampleWithoutTarget \<noteq> otherEvent
   \<and> CreateCommentWithoutTargetInput.runId exampleWithoutTarget \<noteq> 12
   \<and> createCommentWithoutTarget
         (exampleWithoutTarget\<lparr>CreateCommentWithoutTargetInput.event := otherEvent,
            CreateCommentWithoutTargetInput.runId := 12\<rparr>)
     = createCommentWithoutTarget exampleWithoutTarget"
proof -
  let ?b = "exampleWithoutTarget\<lparr>CreateCommentWithoutTargetInput.event := otherEvent,
              CreateCommentWithoutTargetInput.runId := 12\<rparr>"
  have r: "CreateCommentWithoutTargetInput.result ?b
             = CreateCommentWithoutTargetInput.result exampleWithoutTarget"
    by simp
  have n: "CreateCommentWithoutTargetInput.artifactName ?b
             = CreateCommentWithoutTargetInput.artifactName exampleWithoutTarget"
    by simp
  have p: "CreateCommentWithoutTargetInput.customReportPage ?b
             = CreateCommentWithoutTargetInput.customReportPage exampleWithoutTarget"
    by simp
  have d: "CreateCommentWithoutTargetInput.event exampleWithoutTarget \<noteq> otherEvent
           \<and> CreateCommentWithoutTargetInput.runId exampleWithoutTarget \<noteq> 12"
    by (simp add: exampleWithoutTarget_def otherEvent_def lit_def)
  from createCommentWithoutTarget_ignores_event_runId [OF r n p] d
  show ?thesis
    by simp
qed

section \<open>The comment with a target\<close>

subsection \<open>The three report sections\<close>

lemma mapE_Inr: "mapE f xs = Inr ys \<Longrightarrow> list_all2 (\<lambda>x y. f x = Inr y) xs ys"
proof (induction xs arbitrary: ys)
  case Nil
  then show ?case by simp
next
  case (Cons x xs)
  then show ?case
    by (auto split: sum.splits)
qed

lemma mapE_returns:
  "(\<forall>x \<in> set xs. \<exists>y. f x = Inr y) \<Longrightarrow> \<exists>ys. mapE f xs = Inr ys"
  by (induction xs) auto

lemma mapE_throws: "mapE f xs = Inl e \<Longrightarrow> \<exists>x \<in> set xs. f x = Inl e"
proof (induction xs)
  case Nil
  then show ?case by simp
next
  case (Cons x xs)
  then show ?case
    by (auto split: sum.splits)
qed

lemma differencesItem_Inr:
  "differencesItem baseUrl item = Inr block \<longleftrightarrow>
     (\<exists>filename. encodeURIComponent (basename item) = Inr filename
        \<and> block = lit ''### `'' @ basename item @ lit ''`\<newline>   \<newline>| actual|![Actual](''
            @ baseUrl @ lit ''actual/'' @ filename @ lit ''?raw=true''
            @ lit '') |\<newline>|--|--|\<newline>|expected|![Expected](''
            @ baseUrl @ lit ''expected/'' @ filename @ lit ''?raw=true''
            @ lit '')|\<newline>|difference|![Difference](''
            @ baseUrl @ lit ''diff/'' @ filename @ lit ''?raw=true'' @ lit '')|'')"
  by (auto simp: differencesItem_def Let_def split: sum.splits)

lemma newItemsItem_Inr:
  "newItemsItem baseUrl item = Inr block \<longleftrightarrow>
     (\<exists>filename. encodeURIComponent (basename item) = Inr filename
        \<and> block = lit ''### `'' @ basename item @ lit ''`\<newline>       \<newline>|  |\<newline>|--|\<newline>|![NewItem](''
            @ baseUrl @ lit ''actual/'' @ filename @ lit ''?raw=true''
            @ lit '')|\<newline>       '')"
  by (auto simp: newItemsItem_def Let_def split: sum.splits)

lemma deletedItemsItem_Inr:
  "deletedItemsItem baseUrl item = Inr block \<longleftrightarrow>
     (\<exists>filename. encodeURIComponent (basename item) = Inr filename
        \<and> block = lit ''### `'' @ basename item @ lit ''`\<newline>       \<newline>|  |\<newline>|--|\<newline>|![DeleteItem](''
            @ baseUrl @ lit ''expected/'' @ filename @ lit ''?raw=true''
            @ lit '')|\<newline>       '')"
  by (auto simp: deletedItemsItem_def Let_def split: sum.splits)

lemma differences_Inr:
  assumes "differences r baseUrl = Inr d"
  shows "(failedItems r = [] \<and> d = [])
     \<or> (\<exists>blocks. d = lit ''   \<newline>     \<newline>### Differences\<newline>  \<newline>''
                     @ join (lit ''\<newline>'') blocks @ lit ''\<newline>  ''
            \<and> list_all2 (\<lambda>item block. differencesItem baseUrl item = Inr block)
                  (failedItems r) blocks)"
  using assms
  by (auto simp: differences_def split: if_splits sum.splits dest: mapE_Inr)

lemma newItemsSection_Inr:
  assumes "newItemsSection r baseUrl = Inr n"
  shows "(newItems r = [] \<and> n = [])
     \<or> (\<exists>blocks. n = lit ''   \<newline>     \<newline>### New Items\<newline>  \<newline>''
                     @ join (lit ''\<newline>'') blocks @ lit ''\<newline>  ''
            \<and> list_all2 (\<lambda>item block. newItemsItem baseUrl item = Inr block)
                  (newItems r) blocks)"
  using assms
  by (auto simp: newItemsSection_def split: if_splits sum.splits dest: mapE_Inr)

lemma deletedItemsSection_Inr:
  assumes "deletedItemsSection r baseUrl = Inr x"
  shows "(deletedItems r = [] \<and> x = [])
     \<or> (\<exists>blocks. x = lit ''   \<newline>   \<newline>### Deleted Items\<newline>  \<newline>''
                     @ join (lit ''\<newline>'') blocks @ lit ''\<newline>  ''
            \<and> list_all2 (\<lambda>item block. deletedItemsItem baseUrl item = Inr block)
                  (deletedItems r) blocks)"
  using assms
  by (auto simp: deletedItemsSection_def split: if_splits sum.splits dest: mapE_Inr)

lemma createCommentWithTarget_Inr:
  assumes "createCommentWithTarget inp = Inr out"
    and "parts = split_slash (full_name (repository (event inp)))"
  obtains d n x where
    "differences (result inp)
       (createBaseUrl (element parts 0) (element parts 1) (regBranch inp) (runId inp)
          (artifactName inp) (date inp)) = Inr d"
    "newItemsSection (result inp)
       (createBaseUrl (element parts 0) (element parts 1) (regBranch inp) (runId inp)
          (artifactName inp) (date inp)) = Inr n"
    "deletedItemsSection (result inp)
       (createBaseUrl (element parts 0) (element parts 1) (regBranch inp) (runId inp)
          (artifactName inp) (date inp)) = Inr x"
    "out =
       commitSentence (element parts 0) (element parts 1) (sha inp) (head_sha (targetRun inp))
         (take 7 (sha inp)) (take 7 (head_sha (targetRun inp)))
       @ lit ''\<newline>  \<newline>''
       @ successOrFailMessage (result inp) (artifactName inp)
           (reportWithTarget (customReportPage inp))
       @ lit ''\<newline>  \<newline>'' @ summaryTable (result inp)
       @ lit ''\<newline><details>\<newline><summary>'' @ memo @ lit '' Report</summary>\<newline>''
       @ d @ lit ''\<newline>'' @ n @ lit ''\<newline>'' @ x @ lit ''\<newline></details>\<newline>''"
  using assms unfolding createCommentWithTarget_def Let_def
  by (auto split: sum.splits)

lemma not_URIError: "(v :: error + 'a) \<noteq> Inl URIError \<longleftrightarrow> (\<exists>y. v = Inr y)"
proof (cases v)
  case (Inl e)
  then show ?thesis by (cases e) simp
next
  case (Inr y)
  then show ?thesis by simp
qed

lemma differences_returns:
  assumes "\<forall>item \<in> set (failedItems r). encodeURIComponent (basename item) \<noteq> Inl URIError"
  shows "\<exists>d. differences r baseUrl = Inr d"
proof -
  from assms have "\<forall>item \<in> set (failedItems r). \<exists>b. differencesItem baseUrl item = Inr b"
    by (simp add: not_URIError differencesItem_Inr)
  then obtain blocks where "mapE (differencesItem baseUrl) (failedItems r) = Inr blocks"
    using mapE_returns by blast
  then show ?thesis
    by (simp add: differences_def)
qed

lemma newItemsSection_returns:
  assumes "\<forall>item \<in> set (newItems r). encodeURIComponent (basename item) \<noteq> Inl URIError"
  shows "\<exists>n. newItemsSection r baseUrl = Inr n"
proof -
  from assms have "\<forall>item \<in> set (newItems r). \<exists>b. newItemsItem baseUrl item = Inr b"
    by (simp add: not_URIError newItemsItem_Inr)
  then obtain blocks where "mapE (newItemsItem baseUrl) (newItems r) = Inr blocks"
    using mapE_returns by blast
  then show ?thesis
    by (simp add: newItemsSection_def)
qed

lemma deletedItemsSection_returns:
  assumes "\<forall>item \<in> set (deletedItems r). encodeURIComponent (basename item) \<noteq> Inl URIError"
  shows "\<exists>x. deletedItemsSection r baseUrl = Inr x"
proof -
  from assms have "\<forall>item \<in> set (deletedItems r). \<exists>b. deletedItemsItem baseUrl item = Inr b"
    by (simp add: not_URIError deletedItemsItem_Inr)
  then obtain blocks where "mapE (deletedItemsItem baseUrl) (deletedItems r) = Inr blocks"
    using mapE_returns by blast
  then show ?thesis
    by (simp add: deletedItemsSection_def)
qed

text \<open>
  \<open>createCommentWithTarget\<close> returns a string when \<open>encodeURIComponent\<close> accepts the
  base name of every failed, new and deleted item; otherwise the \<open>URIError\<close> leaves the
  call.
\<close>

lemma createCommentWithTarget_returns:
  assumes "\<forall>item \<in> set (failedItems (result inp) @ newItems (result inp)
                          @ deletedItems (result inp)).
             encodeURIComponent (basename item) \<noteq> Inl URIError"
  shows "\<exists>out. createCommentWithTarget inp = Inr out"
proof -
  let ?u = "createBaseUrl (element (split_slash (full_name (repository (event inp)))) 0)
              (element (split_slash (full_name (repository (event inp)))) 1)
              (regBranch inp) (runId inp) (artifactName inp) (date inp)"
  from assms obtain d where d: "differences (result inp) ?u = Inr d"
    using differences_returns [of "result inp" ?u] by auto
  from assms obtain n where n: "newItemsSection (result inp) ?u = Inr n"
    using newItemsSection_returns [of "result inp" ?u] by auto
  from assms obtain x where x: "deletedItemsSection (result inp) ?u = Inr x"
    using deletedItemsSection_returns [of "result inp" ?u] by auto
  show ?thesis
    unfolding createCommentWithTarget_def Let_def d n x by simp
qed

lemma createCommentWithTarget_throws:
  assumes "createCommentWithTarget inp = Inl e"
  shows "\<exists>item \<in> set (failedItems (result inp) @ newItems (result inp)
                          @ deletedItems (result inp)).
           encodeURIComponent (basename item) = Inl URIError"
proof (rule ccontr)
  assume "\<not> ?thesis"
  then have "\<forall>item \<in> set (failedItems (result inp) @ newItems (result inp)
                          @ deletedItems (result inp)).
             encodeURIComponent (basename item) \<noteq> Inl URIError"
    by blast
  from createCommentWithTarget_returns [OF this] assms show False
    by auto
qed

text \<open>
  \<open>encodeURIComponent\<close> returns exactly on the well-formed strings, and throws on the
  others.
\<close>

lemma unescaped_not_surrogate:
  assumes "unescaped c"
  shows "\<not> isLeadingSurrogate c" and "\<not> isTrailingSurrogate c"
  using assms
  by (auto simp: unescaped_def isLeadingSurrogate_def isTrailingSurrogate_def lit_def
      word_le_nat_alt)

lemma encodeURIComponent_returns_iff:
  "(\<exists>r. encodeURIComponent s = Inr r) \<longleftrightarrow> wellFormed s"
proof (induction s rule: wellFormed.induct)
  case 1
  then show ?case by simp
next
  case (2 c cs)
  show ?case
  proof (cases "isLeadingSurrogate c")
    case True
    then have u: "\<not> unescaped c"
      using unescaped_not_surrogate by blast
    show ?thesis
    proof (cases cs)
      case Nil
      with True u show ?thesis by simp
    next
      case (Cons d ds)
      with "2.IH"(1) True have "(\<exists>r. encodeURIComponent ds = Inr r) \<longleftrightarrow> wellFormed ds"
        by simp
      with True u Cons show ?thesis
        by (cases "encodeURIComponent ds") simp_all
    qed
  next
    case False
    show ?thesis
    proof (cases "isTrailingSurrogate c")
      case True
      then have "\<not> unescaped c"
        using unescaped_not_surrogate by blast
      with True False show ?thesis by simp
    next
      case t: False
      with "2.IH"(2) False have "(\<exists>r. encodeURIComponent cs = Inr r) \<longleftrightarrow> wellFormed cs"
        by simp
      with t False show ?thesis
        by (cases "encodeURIComponent cs") simp_all
    qed
  qed
qed

lemma encodeURIComponent_throws_iff:
  "encodeURIComponent s = Inl URIError \<longleftrightarrow> \<not> wellFormed s"
proof -
  have "encodeURIComponent s = Inl URIError \<longleftrightarrow> \<not> (\<exists>r. encodeURIComponent s = Inr r)"
  proof (cases "encodeURIComponent s")
    case (Inl e)
    then show ?thesis by (cases e) simp
  next
    case (Inr r)
    then show ?thesis by simp
  qed
  then show ?thesis
    by (simp add: encodeURIComponent_returns_iff)
qed

lemma createCommentWithTarget_returns_wellFormed:
  assumes "\<forall>item \<in> set (failedItems (result inp) @ newItems (result inp)
                          @ deletedItems (result inp)).
             wellFormed (basename item)"
  shows "\<exists>out. createCommentWithTarget inp = Inr out"
  using assms createCommentWithTarget_returns [of inp]
  by (simp add: encodeURIComponent_throws_iff)

lemma mapE_Inr_all: "mapE f xs = Inr ys \<Longrightarrow> \<forall>x \<in> set xs. \<exists>y. f x = Inr y"
proof (induction xs arbitrary: ys)
  case Nil
  then show ?case by simp
next
  case (Cons x xs)
  then show ?case
    by (auto split: sum.splits)
qed

lemma differences_Inr_wellFormed:
  assumes "differences r baseUrl = Inr d"
  shows "\<forall>item \<in> set (failedItems r). wellFormed (basename item)"
proof (cases "failedItems r = []")
  case True
  then show ?thesis by simp
next
  case False
  with assms obtain blocks where "mapE (differencesItem baseUrl) (failedItems r) = Inr blocks"
    by (auto simp: differences_def split: sum.splits)
  from mapE_Inr_all [OF this] show ?thesis
    unfolding differencesItem_Inr encodeURIComponent_returns_iff [symmetric] by blast
qed

lemma newItemsSection_Inr_wellFormed:
  assumes "newItemsSection r baseUrl = Inr n"
  shows "\<forall>item \<in> set (newItems r). wellFormed (basename item)"
proof (cases "newItems r = []")
  case True
  then show ?thesis by simp
next
  case False
  with assms obtain blocks where "mapE (newItemsItem baseUrl) (newItems r) = Inr blocks"
    by (auto simp: newItemsSection_def split: sum.splits)
  from mapE_Inr_all [OF this] show ?thesis
    unfolding newItemsItem_Inr encodeURIComponent_returns_iff [symmetric] by blast
qed

lemma deletedItemsSection_Inr_wellFormed:
  assumes "deletedItemsSection r baseUrl = Inr x"
  shows "\<forall>item \<in> set (deletedItems r). wellFormed (basename item)"
proof (cases "deletedItems r = []")
  case True
  then show ?thesis by simp
next
  case False
  with assms obtain blocks where "mapE (deletedItemsItem baseUrl) (deletedItems r) = Inr blocks"
    by (auto simp: deletedItemsSection_def split: sum.splits)
  from mapE_Inr_all [OF this] show ?thesis
    unfolding deletedItemsItem_Inr encodeURIComponent_returns_iff [symmetric] by blast
qed

lemma createCommentWithTarget_returns_iff:
  "(\<exists>out. createCommentWithTarget inp = Inr out) \<longleftrightarrow>
     (\<forall>item \<in> set (failedItems (result inp) @ newItems (result inp)
                      @ deletedItems (result inp)).
        wellFormed (basename item))"
proof
  assume "\<exists>out. createCommentWithTarget inp = Inr out"
  then obtain out where o: "createCommentWithTarget inp = Inr out"
    by blast
  obtain d n x where
    "differences (result inp)
       (createBaseUrl (element (split_slash (full_name (repository (event inp)))) 0)
          (element (split_slash (full_name (repository (event inp)))) 1)
          (regBranch inp) (runId inp) (artifactName inp) (date inp)) = Inr d"
    "newItemsSection (result inp)
       (createBaseUrl (element (split_slash (full_name (repository (event inp)))) 0)
          (element (split_slash (full_name (repository (event inp)))) 1)
          (regBranch inp) (runId inp) (artifactName inp) (date inp)) = Inr n"
    "deletedItemsSection (result inp)
       (createBaseUrl (element (split_slash (full_name (repository (event inp)))) 0)
          (element (split_slash (full_name (repository (event inp)))) 1)
          (regBranch inp) (runId inp) (artifactName inp) (date inp)) = Inr x"
    by (rule createCommentWithTarget_Inr [OF o refl])
  then show
    "\<forall>item \<in> set (failedItems (result inp) @ newItems (result inp)
                     @ deletedItems (result inp)).
       wellFormed (basename item)"
    using differences_Inr_wellFormed newItemsSection_Inr_wellFormed
      deletedItemsSection_Inr_wellFormed
    by (metis Un_iff set_append)
next
  assume "\<forall>item \<in> set (failedItems (result inp) @ newItems (result inp)
                      @ deletedItems (result inp)).
        wellFormed (basename item)"
  then show "\<exists>out. createCommentWithTarget inp = Inr out"
    by (rule createCommentWithTarget_returns_wellFormed)
qed

lemma createCommentWithTarget_throws_unpaired:
  assumes "item \<in> set (failedItems (result inp) @ newItems (result inp)
                        @ deletedItems (result inp))"
    and "\<not> wellFormed (basename item)"
  shows "createCommentWithTarget inp = Inl URIError"
proof (cases "createCommentWithTarget inp")
  case (Inl e)
  then show ?thesis by (cases e) simp
next
  case (Inr out)
  then have "\<exists>out. createCommentWithTarget inp = Inr out"
    by blast
  with assms show ?thesis
    unfolding createCommentWithTarget_returns_iff by blast
qed

subsection \<open>Evaluating the examples\<close>

lemma split_slash_example:
  "split_slash (lit ''amyu/reg-actions'') = [lit ''amyu'', lit ''reg-actions'']"
  by (simp add: lit_def slash_def)

lemma exampleOutput_correct: "createCommentWithTarget exampleInput = Inr exampleOutput"
  apply (simp add: createCommentWithTarget_def exampleInput_def exampleResult_def Let_def
      differences_def newItemsSection_def deletedItemsSection_def split_slash_example element_def
      templateString_def createBaseUrl_def reportWithTarget_def truthy_def
      successOrFailMessage_def isSuccess_def badge_def summaryTable_def commitSentence_def
      numberToString_def digitsOf.simps exampleOutput_def)
  apply (simp add: lit_def)
  done

lemma basename_example: "basename (lit ''dir/sub/My File.png'') = lit ''My File.png''"
  by (simp add: lit_def basename_def slash_def)

lemma encodeURIComponent_example:
  "encodeURIComponent (lit ''My File.png'') = Inr (lit ''My%20File.png'')"
  by (simp add: lit_def unescaped_def isLeadingSurrogate_def isTrailingSurrogate_def utf8_def
      percentOctets_def percentOctet_def hexDigit_def)

lemma fullInput_items:
  "\<forall>item \<in> set (failedItems (result fullInput) @ newItems (result fullInput)
                   @ deletedItems (result fullInput)).
     wellFormed (basename item)"
  by (simp add: fullInput_def)
     (simp add: lit_def basename_def slash_def isLeadingSurrogate_def isTrailingSurrogate_def)

lemma fullInput_returns: "\<exists>out. createCommentWithTarget fullInput = Inr out"
  using createCommentWithTarget_returns_wellFormed [OF fullInput_items] .

subsection \<open>Properties of the comment with a target\<close>

lemma fullInput_counts:
  "numberToString (int (length (passedItems (result fullInput)))) = lit ''2''"
  "numberToString (int (length (failedItems (result fullInput)))) = lit ''1''"
  "numberToString (int (length (newItems (result fullInput)))) = lit ''1''"
  "numberToString (int (length (deletedItems (result fullInput)))) = lit ''1''"
  by (simp_all add: fullInput_def numberToString_def digitsOf.simps lit_def)

lemma fullInput_parts:
  "split_slash (full_name (repository (event fullInput))) = [lit ''amyu'', lit ''reg-actions'']"
  by (simp add: fullInput_def exampleInput_def split_slash_example)

lemma returned_summaryTable:
  assumes "createCommentWithTarget inp = Inr out"
    and "r = result inp"
  shows "(\<exists>pre post.
            out = pre @ lit ''\<newline>  \<newline>''
              @ lit ''| item    | count                         |\<newline>''
              @ lit ''|:--------|:-----------------------------:|\<newline>''
              @ lit ''| pass    | '' @ numberToString (int (length (passedItems r))) @ lit ''  |\<newline>''
              @ lit ''| change  | '' @ numberToString (int (length (failedItems r))) @ lit ''  |\<newline>''
              @ lit ''| new     | '' @ numberToString (int (length (newItems r))) @ lit ''     |\<newline>''
              @ lit ''| delete  | '' @ numberToString (int (length (deletedItems r))) @ lit '' |\<newline>''
              @ lit ''\<newline><details>\<newline>'' @ post)
    \<and> decimalValue (numberToString (int (length (passedItems r)))) = length (passedItems r)
    \<and> decimalValue (numberToString (int (length (failedItems r)))) = length (failedItems r)
    \<and> decimalValue (numberToString (int (length (newItems r)))) = length (newItems r)
    \<and> decimalValue (numberToString (int (length (deletedItems r)))) = length (deletedItems r)"
proof (intro conjI)
  let ?table =
    "lit ''| item    | count                         |\<newline>''
       @ lit ''|:--------|:-----------------------------:|\<newline>''
       @ lit ''| pass    | '' @ numberToString (int (length (passedItems r))) @ lit ''  |\<newline>''
       @ lit ''| change  | '' @ numberToString (int (length (failedItems r))) @ lit ''  |\<newline>''
       @ lit ''| new     | '' @ numberToString (int (length (newItems r))) @ lit ''     |\<newline>''
       @ lit ''| delete  | '' @ numberToString (int (length (deletedItems r))) @ lit '' |\<newline>''"
  let ?parts = "split_slash (full_name (repository (event inp)))"
  let ?pre =
    "commitSentence (element ?parts 0) (element ?parts 1) (sha inp) (head_sha (targetRun inp))
       (take 7 (sha inp)) (take 7 (head_sha (targetRun inp)))
     @ lit ''\<newline>  \<newline>''
     @ successOrFailMessage (result inp) (artifactName inp)
         (reportWithTarget (customReportPage inp))"
  obtain d n x where
    o: "out = ?pre @ lit ''\<newline>  \<newline>'' @ summaryTable (result inp)
          @ lit ''\<newline><details>\<newline><summary>'' @ memo @ lit '' Report</summary>\<newline>''
          @ d @ lit ''\<newline>'' @ n @ lit ''\<newline>'' @ x @ lit ''\<newline></details>\<newline>''"
    by (rule createCommentWithTarget_Inr [OF assms(1) refl]) simp
  have l: "lit ''\<newline><details>\<newline><summary>'' = lit ''\<newline><details>\<newline>'' @ lit ''<summary>''"
    by (simp add: lit_def)
  have t: "summaryTable (result inp) = ?table"
    by (simp add: summaryTable_def assms(2))
  let ?post = "lit ''<summary>'' @ memo @ lit '' Report</summary>\<newline>''
          @ d @ lit ''\<newline>'' @ n @ lit ''\<newline>'' @ x @ lit ''\<newline></details>\<newline>''"
  have "out = ?pre @ lit ''\<newline>  \<newline>'' @ ?table @ lit ''\<newline><details>\<newline>'' @ ?post"
    unfolding o t l by simp
  then show "\<exists>pre post.
            out = pre @ lit ''\<newline>  \<newline>''
              @ lit ''| item    | count                         |\<newline>''
              @ lit ''|:--------|:-----------------------------:|\<newline>''
              @ lit ''| pass    | '' @ numberToString (int (length (passedItems r))) @ lit ''  |\<newline>''
              @ lit ''| change  | '' @ numberToString (int (length (failedItems r))) @ lit ''  |\<newline>''
              @ lit ''| new     | '' @ numberToString (int (length (newItems r))) @ lit ''     |\<newline>''
              @ lit ''| delete  | '' @ numberToString (int (length (deletedItems r))) @ lit '' |\<newline>''
              @ lit ''\<newline><details>\<newline>'' @ post"
    by (intro exI [of _ ?pre] exI [of _ ?post]) simp
qed (simp_all add: numberToString_length decimalValue_digitsOf)

lemma returned_commit_sentence:
  assumes "createCommentWithTarget inp = Inr out"
    and "parts = split_slash (full_name (repository (event inp)))"
    and "owner = templateString (element parts 0)"
    and "repoName = templateString (element parts 1)"
    and "currentHash = sha inp"
    and "targetHash = head_sha (targetRun inp)"
  shows "\<exists>post.
           out = lit ''This report was generated by comparing ['' @ take 7 currentHash
              @ lit ''](https://github.com/'' @ owner @ lit ''/'' @ repoName @ lit ''/commit/''
              @ currentHash @ lit '') with ['' @ take 7 targetHash
              @ lit ''](https://github.com/'' @ owner @ lit ''/'' @ repoName @ lit ''/commit/''
              @ targetHash
              @ lit '').\<newline>If you would like to check difference, please check [here](https://github.com/''
              @ owner @ lit ''/'' @ repoName @ lit ''/compare/'' @ take 7 targetHash @ lit ''..''
              @ take 7 currentHash @ lit '').''
              @ post"
proof -
  obtain d n x where
    o: "out =
       commitSentence (element parts 0) (element parts 1) (sha inp) (head_sha (targetRun inp))
         (take 7 (sha inp)) (take 7 (head_sha (targetRun inp)))
       @ lit ''\<newline>  \<newline>''
       @ successOrFailMessage (result inp) (artifactName inp)
           (reportWithTarget (customReportPage inp))
       @ lit ''\<newline>  \<newline>'' @ summaryTable (result inp)
       @ lit ''\<newline><details>\<newline><summary>'' @ memo @ lit '' Report</summary>\<newline>''
       @ d @ lit ''\<newline>'' @ n @ lit ''\<newline>'' @ x @ lit ''\<newline></details>\<newline>''"
    by (rule createCommentWithTarget_Inr [OF assms(1) assms(2)]) simp
  show ?thesis
    unfolding o commitSentence_def assms(3-6) by simp
qed

text \<open>
  C7. The base URL is \<open>https://github.com/{owner}/{repoName}/blob/{branch}/{date}_{runId}_{artifactName}/\<close>,
  with owner and repository name the first two parts of the full name split at
  \<open>/\<close>, the storage branch, and the date, the run id (in decimal) and the artifact
  name as they are. Whenever \<open>createCommentWithTarget\<close> returns a string (it does
  unless the base name of an item holds an unpaired surrogate), the string ends with
  the three report sections and \<open></details>\<close>, and every image embed of every block of
  the three sections starts with this base URL.
\<close>

theorem base_url_of_image_embeds:
  assumes "createCommentWithTarget inp = Inr out"
    and "parts = split_slash (full_name (repository (event inp)))"
    and "owner = templateString (element parts 0)"
    and "repoName = templateString (element parts 1)"
    and "baseUrl = lit ''https://github.com/'' @ owner @ lit ''/'' @ repoName @ lit ''/blob/''
           @ regBranch inp @ lit ''/'' @ date inp @ lit ''_'' @ numberToString (runId inp)
           @ lit ''_'' @ artifactName inp @ lit ''/''"
    and "r = result inp"
  shows "createBaseUrl (element parts 0) (element parts 1) (regBranch inp) (runId inp)
           (artifactName inp) (date inp) = baseUrl
    \<and> (\<exists>pre d n x.
          out = pre @ d @ lit ''\<newline>'' @ n @ lit ''\<newline>'' @ x @ lit ''\<newline></details>\<newline>''
        \<and> (failedItems r = [] \<and> d = []
            \<or> (\<exists>blocks.
                  d = lit ''   \<newline>     \<newline>### Differences\<newline>  \<newline>'' @ join (lit ''\<newline>'') blocks @ lit ''\<newline>  ''
                \<and> list_all2
                    (\<lambda>item block. \<exists>filename.
                       encodeURIComponent (basename item) = Inr filename
                     \<and> block =
                         lit ''### `'' @ basename item @ lit ''`\<newline>   \<newline>| actual|![Actual]('' @ baseUrl @ lit ''actual/'' @ filename @ lit ''?raw=true''
                         @ lit '') |\<newline>|--|--|\<newline>|expected|![Expected]('' @ baseUrl @ lit ''expected/'' @ filename @ lit ''?raw=true''
                         @ lit '')|\<newline>|difference|![Difference]('' @ baseUrl @ lit ''diff/'' @ filename @ lit ''?raw=true''
                         @ lit '')|'')
                    (failedItems r) blocks))
        \<and> (newItems r = [] \<and> n = []
            \<or> (\<exists>blocks.
                  n = lit ''   \<newline>     \<newline>### New Items\<newline>  \<newline>'' @ join (lit ''\<newline>'') blocks @ lit ''\<newline>  ''
                \<and> list_all2
                    (\<lambda>item block. \<exists>filename.
                       encodeURIComponent (basename item) = Inr filename
                     \<and> block =
                         lit ''### `'' @ basename item @ lit ''`\<newline>       \<newline>|  |\<newline>|--|\<newline>|![NewItem]('' @ baseUrl @ lit ''actual/'' @ filename @ lit ''?raw=true''
                         @ lit '')|\<newline>       '')
                    (newItems r) blocks))
        \<and> (deletedItems r = [] \<and> x = []
            \<or> (\<exists>blocks.
                  x = lit ''   \<newline>   \<newline>### Deleted Items\<newline>  \<newline>'' @ join (lit ''\<newline>'') blocks @ lit ''\<newline>  ''
                \<and> list_all2
                    (\<lambda>item block. \<exists>filename.
                       encodeURIComponent (basename item) = Inr filename
                     \<and> block =
                         lit ''### `'' @ basename item @ lit ''`\<newline>       \<newline>|  |\<newline>|--|\<newline>|![DeleteItem]('' @ baseUrl @ lit ''expected/'' @ filename @ lit ''?raw=true''
                         @ lit '')|\<newline>       '')
                    (deletedItems r) blocks)))"
proof -
  have u: "createBaseUrl (element parts 0) (element parts 1) (regBranch inp) (runId inp)
             (artifactName inp) (date inp) = baseUrl"
    by (simp add: createBaseUrl_def assms(3-5))
  obtain d n x where
    d: "differences (result inp)
          (createBaseUrl (element parts 0) (element parts 1) (regBranch inp) (runId inp)
             (artifactName inp) (date inp)) = Inr d"
    and n: "newItemsSection (result inp)
          (createBaseUrl (element parts 0) (element parts 1) (regBranch inp) (runId inp)
             (artifactName inp) (date inp)) = Inr n"
    and x: "deletedItemsSection (result inp)
          (createBaseUrl (element parts 0) (element parts 1) (regBranch inp) (runId inp)
             (artifactName inp) (date inp)) = Inr x"
    and o: "out =
       commitSentence (element parts 0) (element parts 1) (sha inp) (head_sha (targetRun inp))
         (take 7 (sha inp)) (take 7 (head_sha (targetRun inp)))
       @ lit ''\<newline>  \<newline>''
       @ successOrFailMessage (result inp) (artifactName inp)
           (reportWithTarget (customReportPage inp))
       @ lit ''\<newline>  \<newline>'' @ summaryTable (result inp)
       @ lit ''\<newline><details>\<newline><summary>'' @ memo @ lit '' Report</summary>\<newline>''
       @ d @ lit ''\<newline>'' @ n @ lit ''\<newline>'' @ x @ lit ''\<newline></details>\<newline>''"
    by (rule createCommentWithTarget_Inr [OF assms(1) assms(2)])
  let ?pre =
    "commitSentence (element parts 0) (element parts 1) (sha inp) (head_sha (targetRun inp))
       (take 7 (sha inp)) (take 7 (head_sha (targetRun inp)))
     @ lit ''\<newline>  \<newline>''
     @ successOrFailMessage (result inp) (artifactName inp)
         (reportWithTarget (customReportPage inp))
     @ lit ''\<newline>  \<newline>'' @ summaryTable (result inp)
     @ lit ''\<newline><details>\<newline><summary>'' @ memo @ lit '' Report</summary>\<newline>''"
  have o': "out = ?pre @ d @ lit ''\<newline>'' @ n @ lit ''\<newline>'' @ x @ lit ''\<newline></details>\<newline>''"
    unfolding o by simp
  have dd: "failedItems r = [] \<and> d = []
            \<or> (\<exists>blocks.
                  d = lit ''   \<newline>     \<newline>### Differences\<newline>  \<newline>'' @ join (lit ''\<newline>'') blocks @ lit ''\<newline>  ''
                \<and> list_all2
                    (\<lambda>item block. \<exists>filename.
                       encodeURIComponent (basename item) = Inr filename
                     \<and> block =
                         lit ''### `'' @ basename item @ lit ''`\<newline>   \<newline>| actual|![Actual]('' @ baseUrl @ lit ''actual/'' @ filename @ lit ''?raw=true''
                         @ lit '') |\<newline>|--|--|\<newline>|expected|![Expected]('' @ baseUrl @ lit ''expected/'' @ filename @ lit ''?raw=true''
                         @ lit '')|\<newline>|difference|![Difference]('' @ baseUrl @ lit ''diff/'' @ filename @ lit ''?raw=true''
                         @ lit '')|'')
                    (failedItems r) blocks)"
    using differences_Inr [OF d] unfolding u differencesItem_Inr assms(6) .
  have nn: "newItems r = [] \<and> n = []
            \<or> (\<exists>blocks.
                  n = lit ''   \<newline>     \<newline>### New Items\<newline>  \<newline>'' @ join (lit ''\<newline>'') blocks @ lit ''\<newline>  ''
                \<and> list_all2
                    (\<lambda>item block. \<exists>filename.
                       encodeURIComponent (basename item) = Inr filename
                     \<and> block =
                         lit ''### `'' @ basename item @ lit ''`\<newline>       \<newline>|  |\<newline>|--|\<newline>|![NewItem]('' @ baseUrl @ lit ''actual/'' @ filename @ lit ''?raw=true''
                         @ lit '')|\<newline>       '')
                    (newItems r) blocks)"
    using newItemsSection_Inr [OF n] unfolding u newItemsItem_Inr assms(6) .
  have xx: "deletedItems r = [] \<and> x = []
            \<or> (\<exists>blocks.
                  x = lit ''   \<newline>   \<newline>### Deleted Items\<newline>  \<newline>'' @ join (lit ''\<newline>'') blocks @ lit ''\<newline>  ''
                \<and> list_all2
                    (\<lambda>item block. \<exists>filename.
                       encodeURIComponent (basename item) = Inr filename
                     \<and> block =
                         lit ''### `'' @ basename item @ lit ''`\<newline>       \<newline>|  |\<newline>|--|\<newline>|![DeleteItem]('' @ baseUrl @ lit ''expected/'' @ filename @ lit ''?raw=true''
                         @ lit '')|\<newline>       '')
                    (deletedItems r) blocks)"
    using deletedItemsSection_Inr [OF x] unfolding u deletedItemsItem_Inr assms(6) .
  from u o' dd nn xx show ?thesis
    by blast
qed

theorem base_url_of_image_embeds_witness:
  "\<exists>out pre d n x.
     createCommentWithTarget fullInput = Inr out
   \<and> out = pre @ d @ lit ''\<newline>'' @ n @ lit ''\<newline>'' @ x @ lit ''\<newline></details>\<newline>''
   \<and> d = lit ''   \<newline>     \<newline>### Differences\<newline>  \<newline>''
         @ join (lit ''\<newline>'')
             [lit ''### `My File.png`\<newline>   \<newline>| actual|![Actual](https://github.com/amyu/reg-actions/blob/reg_actions/2024-01-01_4711_home/actual/My%20File.png?raw=true) |\<newline>|--|--|\<newline>''
              @ lit ''|expected|![Expected](https://github.com/amyu/reg-actions/blob/reg_actions/2024-01-01_4711_home/expected/My%20File.png?raw=true)|\<newline>''
              @ lit ''|difference|![Difference](https://github.com/amyu/reg-actions/blob/reg_actions/2024-01-01_4711_home/diff/My%20File.png?raw=true)|'']
         @ lit ''\<newline>  ''"
proof -
  let ?u = "lit ''https://github.com/amyu/reg-actions/blob/reg_actions/2024-01-01_4711_home/''"
  from fullInput_returns obtain out where o: "createCommentWithTarget fullInput = Inr out"
    by blast
  have 1: "lit ''amyu'' = templateString (element [lit ''amyu'', lit ''reg-actions''] 0)"
    and 2: "lit ''reg-actions'' = templateString (element [lit ''amyu'', lit ''reg-actions''] 1)"
    by (simp_all add: element_def templateString_def)
  have 3: "?u = lit ''https://github.com/'' @ lit ''amyu'' @ lit ''/'' @ lit ''reg-actions''
             @ lit ''/blob/'' @ regBranch fullInput @ lit ''/'' @ date fullInput @ lit ''_''
             @ numberToString (runId fullInput) @ lit ''_'' @ artifactName fullInput @ lit ''/''"
    by (simp add: fullInput_def exampleInput_def numberToString_def digitsOf.simps)
       (simp add: lit_def)
  have f: "failedItems (result fullInput) = [lit ''dir/sub/My File.png'']"
    by (simp add: fullInput_def)
  from base_url_of_image_embeds [OF o fullInput_parts [symmetric] 1 2 3 refl]
  obtain pre d n x where
    p: "out = pre @ d @ lit ''\<newline>'' @ n @ lit ''\<newline>'' @ x @ lit ''\<newline></details>\<newline>''"
    and d: "failedItems (result fullInput) = [] \<and> d = []
            \<or> (\<exists>blocks.
                  d = lit ''   \<newline>     \<newline>### Differences\<newline>  \<newline>'' @ join (lit ''\<newline>'') blocks @ lit ''\<newline>  ''
                \<and> list_all2
                    (\<lambda>item block. \<exists>filename.
                       encodeURIComponent (basename item) = Inr filename
                     \<and> block =
                         lit ''### `'' @ basename item @ lit ''`\<newline>   \<newline>| actual|![Actual]('' @ ?u @ lit ''actual/'' @ filename @ lit ''?raw=true''
                         @ lit '') |\<newline>|--|--|\<newline>|expected|![Expected]('' @ ?u @ lit ''expected/'' @ filename @ lit ''?raw=true''
                         @ lit '')|\<newline>|difference|![Difference]('' @ ?u @ lit ''diff/'' @ filename @ lit ''?raw=true''
                         @ lit '')|'')
                    (failedItems (result fullInput)) blocks)"
    by blast
  from d obtain block where
    b: "d = lit ''   \<newline>     \<newline>### Differences\<newline>  \<newline>'' @ join (lit ''\<newline>'') [block] @ lit ''\<newline>  ''"
    and k: "block =
              lit ''### `'' @ lit ''My File.png'' @ lit ''`\<newline>   \<newline>| actual|![Actual]('' @ ?u @ lit ''actual/'' @ lit ''My%20File.png'' @ lit ''?raw=true''
              @ lit '') |\<newline>|--|--|\<newline>|expected|![Expected]('' @ ?u @ lit ''expected/'' @ lit ''My%20File.png'' @ lit ''?raw=true''
              @ lit '')|\<newline>|difference|![Difference]('' @ ?u @ lit ''diff/'' @ lit ''My%20File.png'' @ lit ''?raw=true''
              @ lit '')|''"
    unfolding f
    by (auto simp: list_all2_Cons1 basename_example encodeURIComponent_example)
  have "block =
          lit ''### `My File.png`\<newline>   \<newline>| actual|![Actual](https://github.com/amyu/reg-actions/blob/reg_actions/2024-01-01_4711_home/actual/My%20File.png?raw=true) |\<newline>|--|--|\<newline>''
              @ lit ''|expected|![Expected](https://github.com/amyu/reg-actions/blob/reg_actions/2024-01-01_4711_home/expected/My%20File.png?raw=true)|\<newline>''
              @ lit ''|difference|![Difference](https://github.com/amyu/reg-actions/blob/reg_actions/2024-01-01_4711_home/diff/My%20File.png?raw=true)|''"
    unfolding k by (simp add: lit_def)
  with o p b show ?thesis
    by blast
qed

text \<open>
  C4, amended. When the base name of every failed, new and deleted item is well-formed
  UTF-16 (no unpaired surrogate), and there is a failed item,
  \<open>createCommentWithTarget\<close> returns a string whose Differences section is the
  header, one block for each failed item in order, joined by line breaks, and the
  trailer. The block of an item is titled with the item's base name as it is and
  embeds three images, at the base URL followed by \<open>actual/\<close>, \<open>expected/\<close> and \<open>diff/\<close>,
  the percent-encoded base name and \<open>?raw=true\<close>. The item \<open>dir/sub/My File.png\<close> has the
  base name \<open>My File.png\<close>, encoded as \<open>My%20File.png\<close>.
\<close>

theorem differences_blocks:
  assumes "\<forall>item \<in> set (failedItems r @ newItems r @ deletedItems r).
             wellFormed (basename item)"
    and "r = result inp"
    and "failedItems r \<noteq> []"
    and "parts = split_slash (full_name (repository (event inp)))"
    and "baseUrl = createBaseUrl (element parts 0) (element parts 1) (regBranch inp) (runId inp)
           (artifactName inp) (date inp)"
  shows "(\<exists>pre post blocks.
            createCommentWithTarget inp =
              Inr (pre @ lit ''   \<newline>     \<newline>### Differences\<newline>  \<newline>''
                   @ join (lit ''\<newline>'') blocks @ lit ''\<newline>  '' @ post)
          \<and> list_all2
              (\<lambda>item block. \<exists>filename.
                 encodeURIComponent (basename item) = Inr filename
               \<and> block =
                   lit ''### `'' @ basename item @ lit ''`\<newline>   \<newline>| actual|![Actual]('' @ baseUrl @ lit ''actual/'' @ filename @ lit ''?raw=true''
                 @ lit '') |\<newline>|--|--|\<newline>|expected|![Expected]('' @ baseUrl @ lit ''expected/'' @ filename @ lit ''?raw=true''
                 @ lit '')|\<newline>|difference|![Difference]('' @ baseUrl @ lit ''diff/'' @ filename @ lit ''?raw=true''
                 @ lit '')|'')
              (failedItems r) blocks)
    \<and> basename (lit ''dir/sub/My File.png'') = lit ''My File.png''
    \<and> encodeURIComponent (lit ''My File.png'') = Inr (lit ''My%20File.png'')"
proof (intro conjI)
  from assms(1) obtain out where out: "createCommentWithTarget inp = Inr out"
    unfolding assms(2) using createCommentWithTarget_returns_wellFormed by blast
  obtain d n x where
    d: "differences (result inp)
          (createBaseUrl (element parts 0) (element parts 1) (regBranch inp) (runId inp)
             (artifactName inp) (date inp)) = Inr d"
    and o: "out =
       commitSentence (element parts 0) (element parts 1) (sha inp) (head_sha (targetRun inp))
         (take 7 (sha inp)) (take 7 (head_sha (targetRun inp)))
       @ lit ''\<newline>  \<newline>''
       @ successOrFailMessage (result inp) (artifactName inp)
           (reportWithTarget (customReportPage inp))
       @ lit ''\<newline>  \<newline>'' @ summaryTable (result inp)
       @ lit ''\<newline><details>\<newline><summary>'' @ memo @ lit '' Report</summary>\<newline>''
       @ d @ lit ''\<newline>'' @ n @ lit ''\<newline>'' @ x @ lit ''\<newline></details>\<newline>''"
    by (rule createCommentWithTarget_Inr [OF out assms(4)])
  let ?pre =
    "commitSentence (element parts 0) (element parts 1) (sha inp) (head_sha (targetRun inp))
       (take 7 (sha inp)) (take 7 (head_sha (targetRun inp)))
     @ lit ''\<newline>  \<newline>''
     @ successOrFailMessage (result inp) (artifactName inp)
         (reportWithTarget (customReportPage inp))
     @ lit ''\<newline>  \<newline>'' @ summaryTable (result inp)
     @ lit ''\<newline><details>\<newline><summary>'' @ memo @ lit '' Report</summary>\<newline>''"
  let ?post = "lit ''\<newline>'' @ n @ lit ''\<newline>'' @ x @ lit ''\<newline></details>\<newline>''"
  from differences_Inr [OF d] assms(3) obtain blocks where
    b: "d = lit ''   \<newline>     \<newline>### Differences\<newline>  \<newline>'' @ join (lit ''\<newline>'') blocks @ lit ''\<newline>  ''"
    and l: "list_all2 (\<lambda>item block. differencesItem baseUrl item = Inr block)
              (failedItems r) blocks"
    unfolding assms(2) assms(5) by blast
  have "createCommentWithTarget inp =
          Inr (?pre @ lit ''   \<newline>     \<newline>### Differences\<newline>  \<newline>''
               @ join (lit ''\<newline>'') blocks @ lit ''\<newline>  '' @ ?post)"
    unfolding out o b by simp
  with l show "\<exists>pre post blocks.
            createCommentWithTarget inp =
              Inr (pre @ lit ''   \<newline>     \<newline>### Differences\<newline>  \<newline>''
                   @ join (lit ''\<newline>'') blocks @ lit ''\<newline>  '' @ post)
          \<and> list_all2
              (\<lambda>item block. \<exists>filename.
                 encodeURIComponent (basename item) = Inr filename
               \<and> block =
                   lit ''### `'' @ basename item @ lit ''`\<newline>   \<newline>| actual|![Actual]('' @ baseUrl @ lit ''actual/'' @ filename @ lit ''?raw=true''
                 @ lit '') |\<newline>|--|--|\<newline>|expected|![Expected]('' @ baseUrl @ lit ''expected/'' @ filename @ lit ''?raw=true''
                 @ lit '')|\<newline>|difference|![Difference]('' @ baseUrl @ lit ''diff/'' @ filename @ lit ''?raw=true''
                 @ lit '')|'')
              (failedItems r) blocks"
    unfolding differencesItem_Inr by blast
qed (rule basename_example, rule encodeURIComponent_example)

theorem differences_blocks_witness:
  "failedItems (result fullInput) @ newItems (result fullInput) @ deletedItems (result fullInput)
     = [lit ''dir/sub/My File.png'', lit ''n.png'', lit ''d.png'']
   \<and> wellFormed (basename (lit ''dir/sub/My File.png''))
   \<and> wellFormed (basename (lit ''n.png''))
   \<and> wellFormed (basename (lit ''d.png''))
   \<and> failedItems (result fullInput) = [lit ''dir/sub/My File.png'']
   \<and> (\<exists>pre post blocks baseUrl.
         baseUrl = createBaseUrl (Some (lit ''amyu'')) (Some (lit ''reg-actions''))
                     (lit ''reg_actions'') 4711 (lit ''home'') (lit ''2024-01-01'')
       \<and> createCommentWithTarget fullInput =
           Inr (pre @ lit ''   \<newline>     \<newline>### Differences\<newline>  \<newline>''
                @ join (lit ''\<newline>'') blocks @ lit ''\<newline>  '' @ post)
       \<and> list_all2
           (\<lambda>item block. \<exists>filename.
              encodeURIComponent (basename item) = Inr filename
            \<and> block =
                lit ''### `'' @ basename item @ lit ''`\<newline>   \<newline>| actual|![Actual]('' @ baseUrl @ lit ''actual/'' @ filename @ lit ''?raw=true''
                @ lit '') |\<newline>|--|--|\<newline>|expected|![Expected]('' @ baseUrl @ lit ''expected/'' @ filename @ lit ''?raw=true''
                @ lit '')|\<newline>|difference|![Difference]('' @ baseUrl @ lit ''diff/'' @ filename @ lit ''?raw=true''
                @ lit '')|'')
           [lit ''dir/sub/My File.png''] blocks)"
proof -
  have f: "failedItems (result fullInput) = [lit ''dir/sub/My File.png'']"
    by (simp add: fullInput_def)
  then have n: "failedItems (result fullInput) \<noteq> []"
    by simp
  have u: "createBaseUrl (Some (lit ''amyu'')) (Some (lit ''reg-actions''))
             (lit ''reg_actions'') 4711 (lit ''home'') (lit ''2024-01-01'')
           = createBaseUrl (element [lit ''amyu'', lit ''reg-actions''] 0)
               (element [lit ''amyu'', lit ''reg-actions''] 1) (regBranch fullInput)
               (runId fullInput) (artifactName fullInput) (date fullInput)"
    by (simp add: element_def fullInput_def exampleInput_def)
  have i: "failedItems (result fullInput) @ newItems (result fullInput)
             @ deletedItems (result fullInput)
           = [lit ''dir/sub/My File.png'', lit ''n.png'', lit ''d.png'']"
    by (simp add: fullInput_def)
  have e: "wellFormed (basename (lit ''dir/sub/My File.png''))"
    and e': "wellFormed (basename (lit ''n.png''))" "wellFormed (basename (lit ''d.png''))"
    by (simp_all add: lit_def basename_def slash_def isLeadingSurrogate_def
        isTrailingSurrogate_def)
  from i e e' have h:
    "\<forall>item \<in> set (failedItems (result fullInput) @ newItems (result fullInput)
                     @ deletedItems (result fullInput)).
       wellFormed (basename item)"
    by simp
  from differences_blocks [OF h refl n fullInput_parts [symmetric] u] i e e' f
  show ?thesis
    by auto
qed

text \<open>
  The claim as stated, for every failed item, fails for an item whose base name holds
  an unpaired surrogate: \<open>encodeURIComponent\<close> throws \<open>URIError\<close>, and so does
  \<open>createCommentWithTarget\<close>; no Differences section is produced.
\<close>

theorem differences_blocks_counterexample:
  "failedItems (result unpairedInput) = [unpairedItem]
   \<and> \<not> wellFormed (basename unpairedItem)
   \<and> encodeURIComponent (basename unpairedItem) = Inl URIError
   \<and> createCommentWithTarget unpairedInput = Inl URIError"
proof -
  have e: "encodeURIComponent (basename unpairedItem) = Inl URIError"
    by (simp add: unpairedItem_def lit_def basename_def slash_def unescaped_def
        isLeadingSurrogate_def isTrailingSurrogate_def)
  have "differences (result unpairedInput) u = Inl URIError" for u
    by (simp add: unpairedInput_def differences_def differencesItem_def Let_def e)
  then have "createCommentWithTarget unpairedInput = Inl URIError"
    by (simp add: createCommentWithTarget_def Let_def)
  with e show ?thesis
    by (simp add: unpairedInput_def encodeURIComponent_throws_iff [symmetric])
qed

lemma message_report_link:
  "\<exists>a. successOrFailMessage r artifact report =
         a @ lit ''Check out the report [here]('' @ report @ lit '').\<newline>    ''"
proof (cases "isSuccess r")
  case True
  have l: "lit ''\<newline>Check out the report [here]('' = lit ''\<newline>'' @ lit ''Check out the report [here](''"
    by (simp add: lit_def)
  let ?a = "badge r @ lit ''\<newline>\<newline>## ArtifactName: `'' @ artifact @ lit ''`\<newline>  \<newline>''
        @ sparkles @ sparkles @ lit '' That's perfect, there is no visual difference! ''
        @ sparkles @ sparkles @ lit ''\<newline>''"
  show ?thesis
    unfolding successOrFailMessage_def if_P [OF True] l
    by (intro exI [of _ ?a]) simp
next
  case False
  have l: "lit ''`\<newline>\<newline>Check out the report [here]('' = lit ''`\<newline>\<newline>'' @ lit ''Check out the report [here](''"
    by (simp add: lit_def)
  let ?a = "badge r @ lit ''\<newline>\<newline>## ArtifactName: `'' @ artifact @ lit ''`\<newline>\<newline>''"
  show ?thesis
    unfolding successOrFailMessage_def if_not_P [OF False] l
    by (intro exI [of _ ?a]) simp
qed

lemma emptyPage_output: "createCommentWithTarget emptyPageInput = Inr exampleOutput"
proof -
  have "createCommentWithTarget emptyPageInput = createCommentWithTarget exampleInput"
    by (simp add: createCommentWithTarget_def emptyPageInput_def exampleInput_def
        reportWithTarget_def truthy_def)
  then show ?thesis
    by (simp add: exampleOutput_correct)
qed

lemma exampleOutput_no_nested_link: "\<not> sublist (lit ''[here](   '') exampleOutput"
  unfolding exampleOutput_def
  by (simp add: lit_def sparkles_def memo_def sublist_code prefix_code)

lemma returned_report_link:
  assumes "createCommentWithTarget inp = Inr out"
  shows "(\<forall>page. customReportPage inp = Some page \<and> page \<noteq> [] \<longrightarrow>
            (\<exists>pre post.
               out = pre @ lit ''Check out the report [here](''
                     @ lit ''   \<newline>Check out the report [here]('' @ page @ lit '').''
                     @ lit '').\<newline>    '' @ post))
    \<and> (customReportPage inp = None \<or> customReportPage inp = Some [] \<longrightarrow>
            (\<exists>pre post.
               out = pre @ lit ''Check out the report [here]('' @ lit '').\<newline>    '' @ post))"
proof -
  let ?parts = "split_slash (full_name (repository (event inp)))"
  let ?cs =
    "commitSentence (element ?parts 0) (element ?parts 1) (sha inp) (head_sha (targetRun inp))
       (take 7 (sha inp)) (take 7 (head_sha (targetRun inp)))"
  obtain d n x where
    o: "out = ?cs @ lit ''\<newline>  \<newline>''
       @ successOrFailMessage (result inp) (artifactName inp)
           (reportWithTarget (customReportPage inp))
       @ lit ''\<newline>  \<newline>'' @ summaryTable (result inp)
       @ lit ''\<newline><details>\<newline><summary>'' @ memo @ lit '' Report</summary>\<newline>''
       @ d @ lit ''\<newline>'' @ n @ lit ''\<newline>'' @ x @ lit ''\<newline></details>\<newline>''"
    by (rule createCommentWithTarget_Inr [OF assms refl])
  obtain a where
    m: "successOrFailMessage (result inp) (artifactName inp)
          (reportWithTarget (customReportPage inp))
        = a @ lit ''Check out the report [here]('' @ reportWithTarget (customReportPage inp)
          @ lit '').\<newline>    ''"
    using message_report_link by blast
  let ?post = "lit ''\<newline>  \<newline>'' @ summaryTable (result inp)
       @ lit ''\<newline><details>\<newline><summary>'' @ memo @ lit '' Report</summary>\<newline>''
       @ d @ lit ''\<newline>'' @ n @ lit ''\<newline>'' @ x @ lit ''\<newline></details>\<newline>''"
  have e: "out = (?cs @ lit ''\<newline>  \<newline>'' @ a) @ lit ''Check out the report [here](''
             @ reportWithTarget (customReportPage inp) @ lit '').\<newline>    '' @ ?post"
    unfolding o m by simp
  show ?thesis
  proof (intro conjI allI impI)
    fix page
    assume "customReportPage inp = Some page \<and> page \<noteq> []"
    then have "reportWithTarget (customReportPage inp)
               = lit ''   \<newline>Check out the report [here]('' @ page @ lit '').''"
      by (simp add: reportWithTarget_def truthy_def templateString_def)
    with e have "out = (?cs @ lit ''\<newline>  \<newline>'' @ a) @ lit ''Check out the report [here](''
                     @ lit ''   \<newline>Check out the report [here]('' @ page @ lit '').''
                     @ lit '').\<newline>    '' @ ?post"
      by simp
    then show "\<exists>pre post.
               out = pre @ lit ''Check out the report [here](''
                     @ lit ''   \<newline>Check out the report [here]('' @ page @ lit '').''
                     @ lit '').\<newline>    '' @ post"
      by blast
  next
    assume "customReportPage inp = None \<or> customReportPage inp = Some []"
    then have "reportWithTarget (customReportPage inp) = []"
      by (auto simp: reportWithTarget_def truthy_def)
    with e have "out = (?cs @ lit ''\<newline>  \<newline>'' @ a) @ lit ''Check out the report [here](''
                     @ lit '').\<newline>    '' @ ?post"
      by simp
    then show "\<exists>pre post.
               out = pre @ lit ''Check out the report [here]('' @ lit '').\<newline>    '' @ post"
      by blast
  qed
qed

lemma exampleOutput_headers:
  "\<not> sublist (lit ''Differences'') exampleOutput"
  "\<not> sublist (lit ''New Items'') exampleOutput"
  "\<not> sublist (lit ''Deleted Items'') exampleOutput"
  unfolding exampleOutput_def
  by (simp_all add: lit_def sparkles_def memo_def sublist_code prefix_code)

lemma tableCells_pass_row:
  "tableCells (lit ''| pass    | 1  |'') = [lit ''pass'', lit ''1'']"
  "tableCells (lit ''| pass | 1 |'') = [lit ''pass'', lit ''1'']"
  by (simp_all add: tableCells_def trim_def lit_def pipe_def space_def)

text \<open>
  C6. For the result with the one passed item \<open>a.png\<close> and no other item, and the
  artifact name \<open>home\<close>, \<open>createCommentWithTarget\<close> returns a string that contains the
  "passed" badge and the table row for pass with the count 1 (the row is padded; its
  cells are those of \<open>| pass | 1 |\<close>), and whose report part is the \<open><details>\<close> element
  with three empty sections. For \<open>exampleInput\<close>, which has this result and this name,
  the returned string contains none of \<open>Differences\<close>, \<open>New Items\<close> and \<open>Deleted Items\<close>.
\<close>

theorem example_end_to_end:
  assumes "result inp = \<lparr> passedItems = [lit ''a.png''], failedItems = [], newItems = [],
                          deletedItems = [] \<rparr>"
    and "artifactName inp = lit ''home''"
  shows "(\<exists>out pre.
            createCommentWithTarget inp = Inr out
          \<and> sublist (lit ''![success](https://img.shields.io/badge/%E2%9C%94%20reg-passed-green)'') out
          \<and> sublist (lit ''\<newline>| pass    | 1  |\<newline>'') out
          \<and> out = pre @ lit ''<details>\<newline><summary>'' @ memo
                  @ lit '' Report</summary>\<newline>\<newline>\<newline>\<newline></details>\<newline>'')
    \<and> tableCells (lit ''| pass    | 1  |'') = tableCells (lit ''| pass | 1 |'')
    \<and> createCommentWithTarget exampleInput = Inr exampleOutput
    \<and> \<not> sublist (lit ''Differences'') exampleOutput
    \<and> \<not> sublist (lit ''New Items'') exampleOutput
    \<and> \<not> sublist (lit ''Deleted Items'') exampleOutput"
proof -
  let ?parts = "split_slash (full_name (repository (event inp)))"
  let ?cs =
    "commitSentence (element ?parts 0) (element ?parts 1) (sha inp) (head_sha (targetRun inp))
       (take 7 (sha inp)) (take 7 (head_sha (targetRun inp)))"
  let ?badge = "lit ''![success](https://img.shields.io/badge/%E2%9C%94%20reg-passed-green)''"
  let ?row = "lit ''\<newline>| pass    | 1  |\<newline>''"
  let ?details = "lit ''<details>\<newline><summary>'' @ memo
                  @ lit '' Report</summary>\<newline>\<newline>\<newline>\<newline></details>\<newline>''"
  have s: "isSuccess (result inp)"
    by (simp add: assms isSuccess_def)
  have b: "badge (result inp) = ?badge"
    by (simp add: assms badge_def)
  obtain m where m: "successOrFailMessage (result inp) (artifactName inp)
                       (reportWithTarget (customReportPage inp)) = ?badge @ m"
    unfolding successOrFailMessage_def if_P [OF s] b by blast
  obtain t1 t2 where t: "summaryTable (result inp) = t1 @ ?row @ t2"
  proof
    show "summaryTable (result inp) =
            lit ''| item    | count                         |\<newline>|:--------|:-----------------------------:|''
            @ ?row
            @ lit ''| change  | 0  |\<newline>| new     | 0     |\<newline>| delete  | 0 |\<newline>''"
      by (simp add: summaryTable_def assms numberToString_def digitsOf.simps) (simp add: lit_def)
  qed
  have d: "lit ''\<newline><details>\<newline><summary>'' @ memo @ lit '' Report</summary>\<newline>''
             @ [] @ lit ''\<newline>'' @ [] @ lit ''\<newline>'' @ [] @ lit ''\<newline></details>\<newline>''
           = lit ''\<newline>'' @ ?details"
    by (simp add: lit_def)
  have o: "createCommentWithTarget inp =
             Inr (?cs @ lit ''\<newline>  \<newline>'' @ (?badge @ m) @ lit ''\<newline>  \<newline>'' @ (t1 @ ?row @ t2)
                  @ lit ''\<newline>'' @ ?details)"
    unfolding createCommentWithTarget_def Let_def sections_of_success [OF s] sum.case m t d ..
  let ?out = "?cs @ lit ''\<newline>  \<newline>'' @ (?badge @ m) @ lit ''\<newline>  \<newline>'' @ (t1 @ ?row @ t2)
                  @ lit ''\<newline>'' @ ?details"
  have 1: "sublist ?badge ?out"
    unfolding sublist_def
    by (intro exI [of _ "?cs @ lit ''\<newline>  \<newline>''"]
          exI [of _ "m @ lit ''\<newline>  \<newline>'' @ (t1 @ ?row @ t2) @ lit ''\<newline>'' @ ?details"]) simp
  have 2: "sublist ?row ?out"
    unfolding sublist_def
    by (intro exI [of _ "?cs @ lit ''\<newline>  \<newline>'' @ (?badge @ m) @ lit ''\<newline>  \<newline>'' @ t1"]
          exI [of _ "t2 @ lit ''\<newline>'' @ ?details"]) simp
  have 3: "?out = (?cs @ lit ''\<newline>  \<newline>'' @ (?badge @ m) @ lit ''\<newline>  \<newline>'' @ (t1 @ ?row @ t2)
                  @ lit ''\<newline>'') @ ?details"
    by simp
  from o 1 2 3 have
    "\<exists>out pre.
        createCommentWithTarget inp = Inr out
      \<and> sublist ?badge out \<and> sublist ?row out \<and> out = pre @ ?details"
    by blast
  then show ?thesis
    using exampleOutput_correct exampleOutput_headers
    by (simp only: tableCells_pass_row simp_thms)
qed

theorem example_end_to_end_witness:
  "result exampleInput = \<lparr> passedItems = [lit ''a.png''], failedItems = [], newItems = [],
                           deletedItems = [] \<rparr>
   \<and> artifactName exampleInput = lit ''home''
   \<and> (\<exists>out pre.
         createCommentWithTarget exampleInput = Inr out
       \<and> sublist (lit ''![success](https://img.shields.io/badge/%E2%9C%94%20reg-passed-green)'') out
       \<and> sublist (lit ''\<newline>| pass    | 1  |\<newline>'') out
       \<and> out = pre @ lit ''<details>\<newline><summary>'' @ memo
               @ lit '' Report</summary>\<newline>\<newline>\<newline>\<newline></details>\<newline>'')"
proof -
  have r: "result exampleInput = \<lparr> passedItems = [lit ''a.png''], failedItems = [],
                                   newItems = [], deletedItems = [] \<rparr>"
    by (simp add: exampleInput_def exampleResult_def)
  have a: "artifactName exampleInput = lit ''home''"
    by (simp add: exampleInput_def)
  from example_end_to_end [OF r a] r a show ?thesis
    by blast
qed

subsection \<open>Properties that need the comment to be returned\<close>

lemma fullInput_items_list:
  "failedItems (result fullInput) @ newItems (result fullInput) @ deletedItems (result fullInput)
     = [lit ''dir/sub/My File.png'', lit ''n.png'', lit ''d.png'']"
  by (simp add: fullInput_def)

lemma fullInput_items_wellFormed:
  "wellFormed (basename (lit ''dir/sub/My File.png''))"
  "wellFormed (basename (lit ''n.png''))"
  "wellFormed (basename (lit ''d.png''))"
  by (simp_all add: lit_def basename_def slash_def isLeadingSurrogate_def
      isTrailingSurrogate_def)

lemma exampleInput_parts:
  "split_slash (full_name (repository (event exampleInput))) = [lit ''amyu'', lit ''reg-actions'']"
  by (simp add: exampleInput_def split_slash_example)

text \<open>
  C1. A result is classified as a success exactly when \<open>failedItems\<close>, \<open>newItems\<close> and
  \<open>deletedItems\<close> are all empty; replacing \<open>passedItems\<close> by any other list leaves the
  classification as it is. The classification shows in what \<open>createCommentWithTarget\<close>
  returns. Up to the line of the artifact name the output is the same in both cases
  (the commit comparison, the badge, the artifact name). For a success the call
  returns, and the celebratory message follows there, before the report sentence. For
  any other result the report sentence follows at once whenever the base names of the
  items are well-formed, and in no case does the call return a string with the
  celebratory message in that place.
\<close>

theorem isSuccess_classification:
  assumes "parts = split_slash (full_name (repository (event inp)))"
    and "head =
           commitSentence (element parts 0) (element parts 1) (sha inp) (head_sha (targetRun inp))
             (take 7 (sha inp)) (take 7 (head_sha (targetRun inp)))
           @ lit ''\<newline>  \<newline>'' @ badge (result inp)
           @ lit ''\<newline>\<newline>## ArtifactName: `'' @ artifactName inp @ lit ''`\<newline>''"
  shows "(isSuccess r \<longleftrightarrow> failedItems r = [] \<and> newItems r = [] \<and> deletedItems r = [])
   \<and> isSuccess (r\<lparr>passedItems := ps\<rparr>) = isSuccess r
   \<and> (isSuccess (result inp) \<longrightarrow>
        (\<exists>post.
           createCommentWithTarget inp =
             Inr (head @ lit ''  \<newline>'' @ sparkles @ sparkles
                  @ lit '' That's perfect, there is no visual difference! '' @ sparkles @ sparkles
                  @ lit ''\<newline>Check out the report [here]('' @ post)))
   \<and> (\<not> isSuccess (result inp)
        \<and> (\<forall>item \<in> set (failedItems (result inp) @ newItems (result inp)
                            @ deletedItems (result inp)).
              wellFormed (basename item)) \<longrightarrow>
        (\<exists>post.
           createCommentWithTarget inp =
             Inr (head @ lit ''\<newline>Check out the report [here]('' @ post)))
   \<and> (\<not> isSuccess (result inp) \<longrightarrow>
        \<not> (\<exists>post.
             createCommentWithTarget inp =
               Inr (head @ lit ''  \<newline>'' @ sparkles @ sparkles
                    @ lit '' That's perfect, there is no visual difference! '' @ sparkles
                    @ sparkles @ lit ''\<newline>Check out the report [here]('' @ post)))"
proof (intro conjI impI)
  show "isSuccess r \<longleftrightarrow> failedItems r = [] \<and> newItems r = [] \<and> deletedItems r = []"
    by (simp add: isSuccess_def)
  show "isSuccess (r\<lparr>passedItems := ps\<rparr>) = isSuccess r"
    by (simp add: isSuccess_def)
next
  let ?cs = "commitSentence (element parts 0) (element parts 1) (sha inp)
               (head_sha (targetRun inp)) (take 7 (sha inp)) (take 7 (head_sha (targetRun inp)))"
  let ?rep = "reportWithTarget (customReportPage inp)"
  have l1: "lit ''`\<newline>  \<newline>'' = lit ''`\<newline>'' @ lit ''  \<newline>''"
    and l2: "lit ''`\<newline>\<newline>Check out the report [here]('' =
             lit ''`\<newline>'' @ lit ''\<newline>Check out the report [here](''"
    by (simp_all add: lit_def)
  have shape: "\<exists>rest. out = ?cs @ lit ''\<newline>  \<newline>''
                 @ successOrFailMessage (result inp) (artifactName inp) ?rep @ rest"
    if ret: "createCommentWithTarget inp = Inr out" for out
  proof -
    obtain d n x where
      "out = ?cs @ lit ''\<newline>  \<newline>''
         @ successOrFailMessage (result inp) (artifactName inp) ?rep
         @ lit ''\<newline>  \<newline>'' @ summaryTable (result inp)
         @ lit ''\<newline><details>\<newline><summary>'' @ memo @ lit '' Report</summary>\<newline>''
         @ d @ lit ''\<newline>'' @ n @ lit ''\<newline>'' @ x @ lit ''\<newline></details>\<newline>''"
      by (rule createCommentWithTarget_Inr [OF ret assms(1)])
    then show ?thesis by blast
  qed
  have fail: "successOrFailMessage (result inp) (artifactName inp) ?rep =
                badge (result inp) @ lit ''\<newline>\<newline>## ArtifactName: `'' @ artifactName inp
                @ lit ''`\<newline>'' @ lit ''\<newline>Check out the report [here](''
                @ ?rep @ lit '').\<newline>    ''"
    if "\<not> isSuccess (result inp)"
    using that by (simp add: successOrFailMessage_def l2)
  have succ: "successOrFailMessage (result inp) (artifactName inp) ?rep =
                badge (result inp) @ lit ''\<newline>\<newline>## ArtifactName: `'' @ artifactName inp
                @ lit ''`\<newline>'' @ lit ''  \<newline>'' @ sparkles @ sparkles
                @ lit '' That's perfect, there is no visual difference! '' @ sparkles @ sparkles
                @ lit ''\<newline>Check out the report [here]('' @ ?rep @ lit '').\<newline>    ''"
    if "isSuccess (result inp)"
    using that by (simp add: successOrFailMessage_def l1)
  {
    assume s: "isSuccess (result inp)"
    then have "\<forall>item \<in> set (failedItems (result inp) @ newItems (result inp)
                              @ deletedItems (result inp)). wellFormed (basename item)"
      by (simp add: isSuccess_def)
    then obtain out where o: "createCommentWithTarget inp = Inr out"
      using createCommentWithTarget_returns_wellFormed by blast
    from shape [OF o] obtain rest where
      "out = ?cs @ lit ''\<newline>  \<newline>''
         @ successOrFailMessage (result inp) (artifactName inp) ?rep @ rest"
      by blast
    then have "out = head @ lit ''  \<newline>'' @ sparkles @ sparkles
                  @ lit '' That's perfect, there is no visual difference! '' @ sparkles @ sparkles
                  @ lit ''\<newline>Check out the report [here]('' @ (?rep @ lit '').\<newline>    '' @ rest)"
      unfolding succ [OF s] assms(2) by simp
    with o show "\<exists>post.
           createCommentWithTarget inp =
             Inr (head @ lit ''  \<newline>'' @ sparkles @ sparkles
                  @ lit '' That's perfect, there is no visual difference! '' @ sparkles @ sparkles
                  @ lit ''\<newline>Check out the report [here]('' @ post)"
      by blast
  }
  {
    assume a: "\<not> isSuccess (result inp)
        \<and> (\<forall>item \<in> set (failedItems (result inp) @ newItems (result inp)
                            @ deletedItems (result inp)).
              wellFormed (basename item))"
    then obtain out where o: "createCommentWithTarget inp = Inr out"
      using createCommentWithTarget_returns_wellFormed by blast
    from shape [OF o] obtain rest where
      "out = ?cs @ lit ''\<newline>  \<newline>''
         @ successOrFailMessage (result inp) (artifactName inp) ?rep @ rest"
      by blast
    then have "out = head @ lit ''\<newline>Check out the report [here](''
                 @ (?rep @ lit '').\<newline>    '' @ rest)"
      using a unfolding assms(2) by (simp add: fail)
    with o show "\<exists>post.
           createCommentWithTarget inp =
             Inr (head @ lit ''\<newline>Check out the report [here]('' @ post)"
      by blast
  }
  {
    assume f: "\<not> isSuccess (result inp)"
    show "\<not> (\<exists>post.
             createCommentWithTarget inp =
               Inr (head @ lit ''  \<newline>'' @ sparkles @ sparkles
                    @ lit '' That's perfect, there is no visual difference! '' @ sparkles
                    @ sparkles @ lit ''\<newline>Check out the report [here]('' @ post))"
    proof
      assume "\<exists>post.
             createCommentWithTarget inp =
               Inr (head @ lit ''  \<newline>'' @ sparkles @ sparkles
                    @ lit '' That's perfect, there is no visual difference! '' @ sparkles
                    @ sparkles @ lit ''\<newline>Check out the report [here]('' @ post)"
      then obtain post where
        o: "createCommentWithTarget inp =
               Inr (head @ lit ''  \<newline>'' @ sparkles @ sparkles
                    @ lit '' That's perfect, there is no visual difference! '' @ sparkles
                    @ sparkles @ lit ''\<newline>Check out the report [here]('' @ post)"
        by blast
      from shape [OF o] obtain rest where
        "head @ lit ''  \<newline>'' @ sparkles @ sparkles
           @ lit '' That's perfect, there is no visual difference! '' @ sparkles
           @ sparkles @ lit ''\<newline>Check out the report [here]('' @ post
         = ?cs @ lit ''\<newline>  \<newline>''
           @ successOrFailMessage (result inp) (artifactName inp) ?rep @ rest"
        by blast
      then have "head @ (lit ''  \<newline>'' @ sparkles @ sparkles
           @ lit '' That's perfect, there is no visual difference! '' @ sparkles
           @ sparkles @ lit ''\<newline>Check out the report [here]('' @ post)
         = head @ (lit ''\<newline>Check out the report [here](''
                 @ ?rep @ lit '').\<newline>    '' @ rest)"
        unfolding fail [OF f] assms(2) by simp
      then have "lit ''  \<newline>'' @ sparkles @ sparkles
           @ lit '' That's perfect, there is no visual difference! '' @ sparkles
           @ sparkles @ lit ''\<newline>Check out the report [here]('' @ post
         = lit ''\<newline>Check out the report [here](''
                 @ ?rep @ lit '').\<newline>    '' @ rest"
        by (simp only: same_append_eq)
      then show False
        by (simp add: lit_def)
    qed
  }
qed

theorem isSuccess_classification_witness:
  "isSuccess (result exampleInput)
   \<and> (\<exists>post.
         createCommentWithTarget exampleInput =
           Inr ((commitSentence (element [lit ''amyu'', lit ''reg-actions''] 0)
                   (element [lit ''amyu'', lit ''reg-actions''] 1) (sha exampleInput)
                   (head_sha (targetRun exampleInput)) (take 7 (sha exampleInput))
                   (take 7 (head_sha (targetRun exampleInput)))
                 @ lit ''\<newline>  \<newline>'' @ badge (result exampleInput)
                 @ lit ''\<newline>\<newline>## ArtifactName: `'' @ artifactName exampleInput @ lit ''`\<newline>'')
                @ lit ''  \<newline>'' @ sparkles @ sparkles
                @ lit '' That's perfect, there is no visual difference! '' @ sparkles @ sparkles
                @ lit ''\<newline>Check out the report [here]('' @ post))
   \<and> \<not> isSuccess (result fullInput)
   \<and> failedItems (result fullInput) @ newItems (result fullInput) @ deletedItems (result fullInput)
     = [lit ''dir/sub/My File.png'', lit ''n.png'', lit ''d.png'']
   \<and> wellFormed (basename (lit ''dir/sub/My File.png''))
   \<and> wellFormed (basename (lit ''n.png''))
   \<and> wellFormed (basename (lit ''d.png''))
   \<and> (\<exists>post.
         createCommentWithTarget fullInput =
           Inr ((commitSentence (element [lit ''amyu'', lit ''reg-actions''] 0)
                   (element [lit ''amyu'', lit ''reg-actions''] 1) (sha fullInput)
                   (head_sha (targetRun fullInput)) (take 7 (sha fullInput))
                   (take 7 (head_sha (targetRun fullInput)))
                 @ lit ''\<newline>  \<newline>'' @ badge (result fullInput)
                 @ lit ''\<newline>\<newline>## ArtifactName: `'' @ artifactName fullInput @ lit ''`\<newline>'')
                @ lit ''\<newline>Check out the report [here]('' @ post))
   \<and> \<not> (\<exists>post.
         createCommentWithTarget fullInput =
           Inr ((commitSentence (element [lit ''amyu'', lit ''reg-actions''] 0)
                   (element [lit ''amyu'', lit ''reg-actions''] 1) (sha fullInput)
                   (head_sha (targetRun fullInput)) (take 7 (sha fullInput))
                   (take 7 (head_sha (targetRun fullInput)))
                 @ lit ''\<newline>  \<newline>'' @ badge (result fullInput)
                 @ lit ''\<newline>\<newline>## ArtifactName: `'' @ artifactName fullInput @ lit ''`\<newline>'')
                @ lit ''  \<newline>'' @ sparkles @ sparkles
                @ lit '' That's perfect, there is no visual difference! '' @ sparkles @ sparkles
                @ lit ''\<newline>Check out the report [here]('' @ post))"
proof -
  have s: "isSuccess (result exampleInput)"
    by (simp add: exampleInput_def exampleResult_def isSuccess_def)
  have f: "\<not> isSuccess (result fullInput)"
    by (simp add: fullInput_def isSuccess_def)
  note a = isSuccess_classification
             [OF exampleInput_parts [symmetric] refl, of "result exampleInput" "[]"]
  note b = isSuccess_classification
             [OF fullInput_parts [symmetric] refl, of "result fullInput" "[]"]
  from a s have 1:
    "\<exists>post.
         createCommentWithTarget exampleInput =
           Inr ((commitSentence (element [lit ''amyu'', lit ''reg-actions''] 0)
                   (element [lit ''amyu'', lit ''reg-actions''] 1) (sha exampleInput)
                   (head_sha (targetRun exampleInput)) (take 7 (sha exampleInput))
                   (take 7 (head_sha (targetRun exampleInput)))
                 @ lit ''\<newline>  \<newline>'' @ badge (result exampleInput)
                 @ lit ''\<newline>\<newline>## ArtifactName: `'' @ artifactName exampleInput @ lit ''`\<newline>'')
                @ lit ''  \<newline>'' @ sparkles @ sparkles
                @ lit '' That's perfect, there is no visual difference! '' @ sparkles @ sparkles
                @ lit ''\<newline>Check out the report [here]('' @ post)"
    by blast
  from b f fullInput_items have 2:
    "\<exists>post.
         createCommentWithTarget fullInput =
           Inr ((commitSentence (element [lit ''amyu'', lit ''reg-actions''] 0)
                   (element [lit ''amyu'', lit ''reg-actions''] 1) (sha fullInput)
                   (head_sha (targetRun fullInput)) (take 7 (sha fullInput))
                   (take 7 (head_sha (targetRun fullInput)))
                 @ lit ''\<newline>  \<newline>'' @ badge (result fullInput)
                 @ lit ''\<newline>\<newline>## ArtifactName: `'' @ artifactName fullInput @ lit ''`\<newline>'')
                @ lit ''\<newline>Check out the report [here]('' @ post)"
    by blast
  from b f have 3:
    "\<not> (\<exists>post.
         createCommentWithTarget fullInput =
           Inr ((commitSentence (element [lit ''amyu'', lit ''reg-actions''] 0)
                   (element [lit ''amyu'', lit ''reg-actions''] 1) (sha fullInput)
                   (head_sha (targetRun fullInput)) (take 7 (sha fullInput))
                   (take 7 (head_sha (targetRun fullInput)))
                 @ lit ''\<newline>  \<newline>'' @ badge (result fullInput)
                 @ lit ''\<newline>\<newline>## ArtifactName: `'' @ artifactName fullInput @ lit ''`\<newline>'')
                @ lit ''  \<newline>'' @ sparkles @ sparkles
                @ lit '' That's perfect, there is no visual difference! '' @ sparkles @ sparkles
                @ lit ''\<newline>Check out the report [here]('' @ post))"
    by blast
  from s f 1 2 3 fullInput_items_list fullInput_items_wellFormed show ?thesis
    by (intro conjI)
qed

text \<open>
  C3, amended. When the base name of every failed, new and deleted item is well-formed
  UTF-16 (no unpaired surrogate), \<open>createCommentWithTarget\<close> returns a string that holds
  the summary table: the header row, the alignment row, and then exactly four count
  rows in the order pass, change, new, delete, each followed by a line break, with an
  empty line and \<open><details>\<close> after the last. The four counts are the decimal numerals
  of the lengths of \<open>passedItems\<close>, \<open>failedItems\<close>, \<open>newItems\<close> and \<open>deletedItems\<close>; read
  back as numbers they are these lengths, zero included.
\<close>

theorem summaryTable_counts:
  assumes "\<forall>item \<in> set (failedItems r @ newItems r @ deletedItems r).
             wellFormed (basename item)"
    and "r = result inp"
  shows "(\<exists>out pre post.
            createCommentWithTarget inp = Inr out
          \<and> out = pre @ lit ''\<newline>  \<newline>''
              @ lit ''| item    | count                         |\<newline>''
              @ lit ''|:--------|:-----------------------------:|\<newline>''
              @ lit ''| pass    | '' @ numberToString (int (length (passedItems r))) @ lit ''  |\<newline>''
              @ lit ''| change  | '' @ numberToString (int (length (failedItems r))) @ lit ''  |\<newline>''
              @ lit ''| new     | '' @ numberToString (int (length (newItems r))) @ lit ''     |\<newline>''
              @ lit ''| delete  | '' @ numberToString (int (length (deletedItems r))) @ lit '' |\<newline>''
              @ lit ''\<newline><details>\<newline>'' @ post)
    \<and> decimalValue (numberToString (int (length (passedItems r)))) = length (passedItems r)
    \<and> decimalValue (numberToString (int (length (failedItems r)))) = length (failedItems r)
    \<and> decimalValue (numberToString (int (length (newItems r)))) = length (newItems r)
    \<and> decimalValue (numberToString (int (length (deletedItems r)))) = length (deletedItems r)"
proof -
  from assms obtain out where o: "createCommentWithTarget inp = Inr out"
    using createCommentWithTarget_returns_wellFormed by blast
  from returned_summaryTable [OF o assms(2)] o show ?thesis
    by blast
qed

theorem summaryTable_counts_witness:
  "failedItems (result fullInput) @ newItems (result fullInput) @ deletedItems (result fullInput)
     = [lit ''dir/sub/My File.png'', lit ''n.png'', lit ''d.png'']
   \<and> wellFormed (basename (lit ''dir/sub/My File.png''))
   \<and> wellFormed (basename (lit ''n.png''))
   \<and> wellFormed (basename (lit ''d.png''))
   \<and> (\<exists>out pre post.
         createCommentWithTarget fullInput = Inr out
       \<and> out = pre @ lit ''\<newline>  \<newline>''
             @ lit ''| item    | count                         |\<newline>''
             @ lit ''|:--------|:-----------------------------:|\<newline>''
             @ lit ''| pass    | '' @ lit ''2'' @ lit ''  |\<newline>''
             @ lit ''| change  | '' @ lit ''1'' @ lit ''  |\<newline>''
             @ lit ''| new     | '' @ lit ''1'' @ lit ''     |\<newline>''
             @ lit ''| delete  | '' @ lit ''1'' @ lit '' |\<newline>''
             @ lit ''\<newline><details>\<newline>'' @ post)
   \<and> decimalValue (lit ''2'') = length (passedItems (result fullInput))"
proof -
  from summaryTable_counts [OF fullInput_items refl, unfolded fullInput_counts]
    fullInput_items_list fullInput_items_wellFormed
  show ?thesis
    by (intro conjI) blast+
qed

text \<open>
  The claim as stated, for every input, fails for an input with an ill-formed item
  name, here a new item: the call throws \<open>URIError\<close> and returns no string, so no table
  either.
\<close>

theorem summaryTable_counts_counterexample:
  "newItems (result trailingInput) = [trailingItem]
   \<and> \<not> wellFormed (basename trailingItem)
   \<and> createCommentWithTarget trailingInput = Inl URIError"
proof -
  have n: "newItems (result trailingInput) = [trailingItem]"
    by (simp add: trailingInput_def)
  have w: "\<not> wellFormed (basename trailingItem)"
    by (simp add: trailingItem_def lit_def basename_def slash_def isLeadingSurrogate_def
        isTrailingSurrogate_def)
  from n have "trailingItem \<in> set (failedItems (result trailingInput)
                 @ newItems (result trailingInput) @ deletedItems (result trailingInput))"
    by simp
  from createCommentWithTarget_throws_unpaired [OF this w] n w show ?thesis
    by blast
qed

text \<open>
  C8, amended. When the base name of every failed, new and deleted item is well-formed
  UTF-16 (no unpaired surrogate), \<open>createCommentWithTarget\<close> returns a string that
  starts with the commit comparison: the link texts are the first seven code units of
  the current commit hash and of the target run's hash, the two commit links point at
  the full hashes, and the compare link runs from the short target hash to the short
  current hash.
\<close>

theorem commit_comparison_sentence:
  assumes "\<forall>item \<in> set (failedItems (result inp) @ newItems (result inp)
                          @ deletedItems (result inp)).
             wellFormed (basename item)"
    and "parts = split_slash (full_name (repository (event inp)))"
    and "owner = templateString (element parts 0)"
    and "repoName = templateString (element parts 1)"
    and "currentHash = sha inp"
    and "targetHash = head_sha (targetRun inp)"
  shows "\<exists>out post.
           createCommentWithTarget inp = Inr out
         \<and> out = lit ''This report was generated by comparing ['' @ take 7 currentHash
              @ lit ''](https://github.com/'' @ owner @ lit ''/'' @ repoName @ lit ''/commit/''
              @ currentHash @ lit '') with ['' @ take 7 targetHash
              @ lit ''](https://github.com/'' @ owner @ lit ''/'' @ repoName @ lit ''/commit/''
              @ targetHash
              @ lit '').\<newline>If you would like to check difference, please check [here](https://github.com/''
              @ owner @ lit ''/'' @ repoName @ lit ''/compare/'' @ take 7 targetHash @ lit ''..''
              @ take 7 currentHash @ lit '').''
              @ post"
proof -
  from assms(1) obtain out where o: "createCommentWithTarget inp = Inr out"
    using createCommentWithTarget_returns_wellFormed by blast
  from returned_commit_sentence [OF o assms(2-6)] o show ?thesis
    by blast
qed

theorem commit_comparison_sentence_witness:
  "failedItems (result fullInput) @ newItems (result fullInput) @ deletedItems (result fullInput)
     = [lit ''dir/sub/My File.png'', lit ''n.png'', lit ''d.png'']
   \<and> wellFormed (basename (lit ''dir/sub/My File.png''))
   \<and> wellFormed (basename (lit ''n.png''))
   \<and> wellFormed (basename (lit ''d.png''))
   \<and> (\<exists>out post.
     createCommentWithTarget fullInput = Inr out
   \<and> out = lit ''This report was generated by comparing ['' @ lit ''0123456''
         @ lit ''](https://github.com/'' @ lit ''amyu'' @ lit ''/'' @ lit ''reg-actions''
         @ lit ''/commit/'' @ lit ''0123456789abcdef0123456789abcdef01234567''
         @ lit '') with ['' @ lit ''fedcba9''
         @ lit ''](https://github.com/'' @ lit ''amyu'' @ lit ''/'' @ lit ''reg-actions''
         @ lit ''/commit/'' @ lit ''fedcba9876543210fedcba9876543210fedcba98''
         @ lit '').\<newline>If you would like to check difference, please check [here](https://github.com/''
         @ lit ''amyu'' @ lit ''/'' @ lit ''reg-actions'' @ lit ''/compare/'' @ lit ''fedcba9''
         @ lit ''..'' @ lit ''0123456'' @ lit '').'' @ post)"
proof -
  have 1: "templateString (element [lit ''amyu'', lit ''reg-actions''] 0) = lit ''amyu''"
    and 2: "templateString (element [lit ''amyu'', lit ''reg-actions''] 1) = lit ''reg-actions''"
    by (simp_all add: element_def templateString_def)
  have 3: "sha fullInput = lit ''0123456789abcdef0123456789abcdef01234567''"
    and 4: "head_sha (targetRun fullInput) = lit ''fedcba9876543210fedcba9876543210fedcba98''"
    by (simp_all add: fullInput_def exampleInput_def)
  have 5: "take 7 (lit ''0123456789abcdef0123456789abcdef01234567'') = lit ''0123456''"
    and 6: "take 7 (lit ''fedcba9876543210fedcba9876543210fedcba98'') = lit ''fedcba9''"
    by (simp_all add: lit_def)
  from commit_comparison_sentence
         [OF fullInput_items fullInput_parts [symmetric] 1 [symmetric] 2 [symmetric]
             3 [symmetric] 4 [symmetric], unfolded 5 6]
    fullInput_items_list fullInput_items_wellFormed
  show ?thesis
    by (intro conjI) blast+
qed

text \<open>
  The claim as stated, for every input, fails for an input with an ill-formed item
  name, here a deleted item: the call throws \<open>URIError\<close> and returns no string, so no
  commit comparison either.
\<close>

theorem commit_comparison_sentence_counterexample:
  "deletedItems (result leadingInput) = [lit ''d.png'', leadingItem]
   \<and> \<not> wellFormed (basename leadingItem)
   \<and> createCommentWithTarget leadingInput = Inl URIError"
proof -
  have n: "deletedItems (result leadingInput) = [lit ''d.png'', leadingItem]"
    by (simp add: leadingInput_def)
  have w: "\<not> wellFormed (basename leadingItem)"
    by (simp add: leadingItem_def lit_def basename_def slash_def isLeadingSurrogate_def
        isTrailingSurrogate_def)
  from n have "leadingItem \<in> set (failedItems (result leadingInput)
                 @ newItems (result leadingInput) @ deletedItems (result leadingInput))"
    by simp
  from createCommentWithTarget_throws_unpaired [OF this w] n w show ?thesis
    by blast
qed

text \<open>
  C9, amended. When the base name of every failed, new and deleted item is well-formed
  UTF-16 (no unpaired surrogate), \<open>createCommentWithTarget\<close> returns a string in which:
  when the custom report page is a non-empty string, the target of the header's report
  link is the whole intermediate string (three spaces, a line break, and the sentence
  with the link to the page), so that the links are nested; when the custom report
  page is \<open>null\<close> or the empty string, the target is empty and the link reads
  \<open>[here]()\<close>.
\<close>

theorem report_link_target:
  assumes "\<forall>item \<in> set (failedItems (result inp) @ newItems (result inp)
                          @ deletedItems (result inp)).
             wellFormed (basename item)"
  shows "\<exists>out.
           createCommentWithTarget inp = Inr out
         \<and> (\<forall>page. customReportPage inp = Some page \<and> page \<noteq> [] \<longrightarrow>
              (\<exists>pre post.
                 out = pre @ lit ''Check out the report [here](''
                       @ lit ''   \<newline>Check out the report [here]('' @ page @ lit '').''
                       @ lit '').\<newline>    '' @ post))
         \<and> (customReportPage inp = None \<or> customReportPage inp = Some [] \<longrightarrow>
              (\<exists>pre post.
                 out = pre @ lit ''Check out the report [here]('' @ lit '').\<newline>    ''
                       @ post))"
proof -
  from assms obtain out where o: "createCommentWithTarget inp = Inr out"
    using createCommentWithTarget_returns_wellFormed by blast
  from returned_report_link [OF o] o show ?thesis
    by blast
qed

theorem report_link_target_witness:
  "failedItems (result fullInput) @ newItems (result fullInput) @ deletedItems (result fullInput)
     = [lit ''dir/sub/My File.png'', lit ''n.png'', lit ''d.png'']
   \<and> wellFormed (basename (lit ''dir/sub/My File.png''))
   \<and> wellFormed (basename (lit ''n.png''))
   \<and> wellFormed (basename (lit ''d.png''))
   \<and> customReportPage fullInput = Some (lit ''https://example.com/report'')
   \<and> lit ''https://example.com/report'' \<noteq> []
   \<and> (\<exists>out pre post.
         createCommentWithTarget fullInput = Inr out
       \<and> out = pre @ lit ''Check out the report [here](''
               @ lit ''   \<newline>Check out the report [here]('' @ lit ''https://example.com/report''
               @ lit '').'' @ lit '').\<newline>    '' @ post)
   \<and> failedItems (result emptyPageInput) @ newItems (result emptyPageInput)
       @ deletedItems (result emptyPageInput) = []
   \<and> customReportPage emptyPageInput = Some []
   \<and> (\<exists>out pre post.
         createCommentWithTarget emptyPageInput = Inr out
       \<and> out = pre @ lit ''Check out the report [here]('' @ lit '').\<newline>    '' @ post)"
proof -
  have p: "customReportPage fullInput = Some (lit ''https://example.com/report'')"
    by (simp add: fullInput_def)
  have q: "lit ''https://example.com/report'' \<noteq> []"
    by (simp add: lit_def)
  have e: "customReportPage emptyPageInput = Some []"
    by (simp add: emptyPageInput_def)
  have i: "failedItems (result emptyPageInput) @ newItems (result emptyPageInput)
       @ deletedItems (result emptyPageInput) = []"
    by (simp add: emptyPageInput_def exampleInput_def exampleResult_def)
  then have w: "\<forall>item \<in> set (failedItems (result emptyPageInput)
                    @ newItems (result emptyPageInput) @ deletedItems (result emptyPageInput)).
                  wellFormed (basename item)"
    by simp
  from report_link_target [OF fullInput_items] p q have 1:
    "\<exists>out pre post.
         createCommentWithTarget fullInput = Inr out
       \<and> out = pre @ lit ''Check out the report [here](''
               @ lit ''   \<newline>Check out the report [here]('' @ lit ''https://example.com/report''
               @ lit '').'' @ lit '').\<newline>    '' @ post"
    by blast
  from report_link_target [OF w] e have 2:
    "\<exists>out pre post.
         createCommentWithTarget emptyPageInput = Inr out
       \<and> out = pre @ lit ''Check out the report [here]('' @ lit '').\<newline>    '' @ post"
    by blast
  from 1 2 p q e i fullInput_items_list fullInput_items_wellFormed show ?thesis
    by (intro conjI)
qed

text \<open>
  The claim as stated, for every non-null report page, fails twice. For the empty
  string the conditional tests truthiness: the output is the one of a \<open>null\<close> page, and
  the nested link that the claim describes does not occur in it. For an input with a
  report page and an ill-formed item name the call throws \<open>URIError\<close> and returns no
  string, so no link at all.
\<close>

theorem report_link_target_counterexample:
  "customReportPage emptyPageInput = Some []
   \<and> createCommentWithTarget emptyPageInput = Inr exampleOutput
   \<and> \<not> sublist (lit ''Check out the report [here](''
                   @ lit ''   \<newline>Check out the report [here]('' @ [] @ lit '').''
                   @ lit '').\<newline>    '')
         exampleOutput
   \<and> customReportPage unpairedPageInput = Some (lit ''https://example.com/report'')
   \<and> failedItems (result unpairedPageInput) = [unpairedItem]
   \<and> \<not> wellFormed (basename unpairedItem)
   \<and> createCommentWithTarget unpairedPageInput = Inl URIError"
proof (intro conjI)
  show "customReportPage emptyPageInput = Some []"
    by (simp add: emptyPageInput_def)
  show "createCommentWithTarget emptyPageInput = Inr exampleOutput"
    by (rule emptyPage_output)
  show "\<not> sublist (lit ''Check out the report [here](''
                   @ lit ''   \<newline>Check out the report [here]('' @ [] @ lit '').''
                   @ lit '').\<newline>    '')
         exampleOutput"
  proof
    assume a: "sublist (lit ''Check out the report [here](''
                   @ lit ''   \<newline>Check out the report [here]('' @ [] @ lit '').''
                   @ lit '').\<newline>    '')
         exampleOutput"
    have "lit ''Check out the report [here](''
                   @ lit ''   \<newline>Check out the report [here]('' @ [] @ lit '').''
                   @ lit '').\<newline>    ''
       = lit ''Check out the report '' @ lit ''[here](   ''
         @ lit ''\<newline>Check out the report [here]().).\<newline>    ''"
      by (simp add: lit_def)
    then have "sublist (lit ''[here](   '')
          (lit ''Check out the report [here](''
                   @ lit ''   \<newline>Check out the report [here]('' @ [] @ lit '').''
                   @ lit '').\<newline>    '')"
      by (simp only: sublist_appendI)
    with a have "sublist (lit ''[here](   '') exampleOutput"
      by (rule sublist_order.order_trans [rotated])
    with exampleOutput_no_nested_link show False
      by simp
  qed
  show "customReportPage unpairedPageInput = Some (lit ''https://example.com/report'')"
    by (simp add: unpairedPageInput_def)
  show f: "failedItems (result unpairedPageInput) = [unpairedItem]"
    by (simp add: unpairedPageInput_def unpairedInput_def)
  show w: "\<not> wellFormed (basename unpairedItem)"
    by (simp add: unpairedItem_def lit_def basename_def slash_def isLeadingSurrogate_def
        isTrailingSurrogate_def)
  from f have "unpairedItem \<in> set (failedItems (result unpairedPageInput)
                 @ newItems (result unpairedPageInput) @ deletedItems (result unpairedPageInput))"
    by simp
  from createCommentWithTarget_throws_unpaired [OF this w]
  show "createCommentWithTarget unpairedPageInput = Inl URIError" .
qed

end
